theory Spec2Isabelle
  imports Complex_Main "HOL-Library.Word" "HOL-Library.Log_Nat" "HOL-Library.Signed_Division"
begin

unbundle bit_operations_syntax

section \<open>Errors\<close>

text \<open>
  The reader signals every failure by an exception. \<open>std::runtime_error\<close> is thrown by the
  reader itself for a container it rejects; one constructor per throw site, carrying what
  the message names:
  \<^item> \<open>UnknownFileFormat\<close>: "Unknown file format. Only WAVE files are supported."
  \<^item> \<open>NotWave tag\<close>: "File format is not WAVE, but {tag}."
  \<^item> \<open>UnsupportedIntegerSamples bits\<close>: "Unsupported sample format: {bits}-bit integer samples."
  \<^item> \<open>UnsupportedSampleOrganization\<close>: "Unsupported sample organization."
  \<^item> \<open>UnsupportedFloatSamples bits\<close>: "Unsupported sample format: {bits}-bit floating-point samples."
  \<^item> \<open>UnsupportedCodec\<close>: "Unsupported sample format. Only uncompressed formats are supported."

  \<open>IOError\<close> is the \<open>std::ios_base::failure\<close> of the stream, which has \<open>failbit\<close> and
  \<open>badbit\<close> in its exception mask. \<open>DivisionByZero\<close> and \<open>IndeterminateValue\<close> stand for the
  two kinds of undefined behaviour the constructor can run into: an integer division by
  zero, and the read of a member that was never assigned.
\<close>

datatype format_error =
    UnknownFileFormat
  | NotWave string
  | UnsupportedIntegerSamples int
  | UnsupportedSampleOrganization
  | UnsupportedFloatSamples int
  | UnsupportedCodec

datatype error =
    IOError
  | FormatError format_error
  | DivisionByZero
  | IndeterminateValue

definition and_then :: "error + 'a \<Rightarrow> ('a \<Rightarrow> error + 'b) \<Rightarrow> error + 'b" where
  "and_then m k = (case m of Inl e \<Rightarrow> Inl e | Inr x \<Rightarrow> k x)"

section \<open>The byte stream\<close>

text \<open>
  \<open>std::ifstream\<close> opened in binary mode: the bytes of the file and the get position.
  A relative seek to a position before the start of the file fails; a seek beyond the end
  succeeds and the next read fails.
\<close>

type_synonym byte = "8 word"

record ifstream =
  content :: "byte list"
  gpos :: nat

definition seekg_cur :: "int \<Rightarrow> ifstream \<Rightarrow> error + ifstream" where
  "seekg_cur off f =
     (if int (gpos f) + off < 0 then Inl IOError
      else Inr (f\<lparr>gpos := nat (int (gpos f) + off)\<rparr>))"

definition read_bytes :: "nat \<Rightarrow> ifstream \<Rightarrow> error + (byte list \<times> ifstream)" where
  "read_bytes n f =
     (if gpos f + n \<le> length (content f)
      then Inr (take n (drop (gpos f) (content f)), f\<lparr>gpos := gpos f + n\<rparr>)
      else Inl IOError)"

text \<open>The value of a sequence of bytes, least significant byte first.\<close>

fun le_value :: "byte list \<Rightarrow> int" where
  "le_value [] = 0"
| "le_value (b # bs) = uint b + 256 * le_value bs"

text \<open>
  Modelled from the spec: \<open>little_endian::read<T>\<close> and \<open>read<T, bits>\<close> of \<open>io_tools.h\<close>,
  which is not among the sources. The spec describes them as fixed-width little-endian
  integer and float reads plus a 24-bit read, all exact-size: \<open>read_le n\<close> consumes \<open>n\<close>
  bytes and returns their little-endian value, zero-extended. When fewer than \<open>n\<close> bytes
  are left the stream fails, which throws.
\<close>

definition read_le :: "nat \<Rightarrow> ifstream \<Rightarrow> error + (int \<times> ifstream)" where
  "read_le n f = and_then (read_bytes n f) (\<lambda>(bs, f'). Inr (le_value bs, f'))"

text \<open>
  Modelled from the spec: \<open>fourcc\<close> of \<open>io_tools.h\<close>. A chunk identifier is four ASCII
  characters, compared with the 32-bit little-endian value read from the stream.
\<close>

definition fourcc :: "char \<Rightarrow> char \<Rightarrow> char \<Rightarrow> char \<Rightarrow> int" where
  "fourcc c0 c1 c2 c3 = of_char c0 + 256 * (of_char c1 + 256 * (of_char c2 + 256 * of_char c3))"

text \<open>
  Modelled from the spec: \<open>fourccToString\<close> of \<open>io_tools.h\<close>, the four characters of an
  identifier in the order of the stream.
\<close>

definition fourccToString :: "int \<Rightarrow> string" where
  "fourccToString v =
     map char_of [v mod 256, v div 256 mod 256, v div 65536 mod 256, v div 16777216 mod 256]"

section \<open>Machine integers\<close>

text \<open>
  \<open>int\<close> is 32 bits wide. \<open>int32\<close> is the conversion of an out-of-range value to \<open>int\<close>
  (modular), which is also what an overflowing \<open>int\<close> operation yields on the targets of
  this program.
\<close>

definition int32 :: "int \<Rightarrow> int" where
  "int32 x = sint (word_of_int x :: 32 word)"

definition roundToEven :: "int \<Rightarrow> int" where
  "roundToEven i = sint (((word_of_int i :: 32 word) + 1) AND NOT 1)"

definition INT24_MIN :: int where "INT24_MIN = - 8388608"
definition INT24_MAX :: int where "INT24_MAX = 8388607"
definition INT16_MIN :: int where "INT16_MIN = - 32768"
definition INT16_MAX :: int where "INT16_MAX = 32767"
definition UINT8_MAX :: int where "UINT8_MAX = 255"

section \<open>Single-precision floating point\<close>

text \<open>
  A \<open>float\<close> is its IEEE-754 binary32 bit pattern: sign (bit 31), biased exponent (bits
  23 to 30) and fraction (bits 0 to 22). The arithmetic the reader uses (conversion from
  \<open>int\<close>, division, multiplication, subtraction) is the exact operation on the values
  followed by rounding to nearest, ties to even.
\<close>

type_synonym float = "32 word"

definition float_sign :: "float \<Rightarrow> bool" where
  "float_sign x = bit x 31"

definition float_exponent :: "float \<Rightarrow> int" where
  "float_exponent x = uint (drop_bit 23 x AND 0xFF)"

definition float_fraction :: "float \<Rightarrow> int" where
  "float_fraction x = uint (x AND 0x7FFFFF)"

definition float_is_nan :: "float \<Rightarrow> bool" where
  "float_is_nan x = (float_exponent x = 255 \<and> float_fraction x \<noteq> 0)"

definition float_is_inf :: "float \<Rightarrow> bool" where
  "float_is_inf x = (float_exponent x = 255 \<and> float_fraction x = 0)"

definition pow2 :: "int \<Rightarrow> rat" where
  "pow2 k = (if 0 \<le> k then 2 ^ nat k else 1 / 2 ^ nat (- k))"

text \<open>The value of a finite pattern (exponent field below 255).\<close>

definition float_value :: "float \<Rightarrow> rat" where
  "float_value x =
     (if float_sign x then - 1 else 1) *
     of_int (if float_exponent x = 0 then float_fraction x else 2 ^ 23 + float_fraction x) *
     pow2 (max (float_exponent x) 1 - 150)"

text \<open>\<open>floor_log2 a\<close> is the integer part of the binary logarithm of a positive \<open>a\<close>.\<close>

definition floor_log2 :: "rat \<Rightarrow> int" where
  "floor_log2 a = (if 1 \<le> a then bitlen \<lfloor>a\<rfloor> - 1 else - bitlen (\<lceil>1 / a\<rceil> - 1))"

definition round_half_even :: "rat \<Rightarrow> int" where
  "round_half_even q =
     (let f = \<lfloor>q\<rfloor>; r = q - of_int f
      in if r < 1 / 2 then f else if 1 / 2 < r then f + 1 else if even f then f else f + 1)"

definition float_signbit :: "bool \<Rightarrow> float" where
  "float_signbit neg = (if neg then 0x80000000 else 0)"

definition float_infinity :: "bool \<Rightarrow> float" where
  "float_infinity neg = float_signbit neg OR 0x7F800000"

definition float_nan :: float where
  "float_nan = 0x7FC00000"

text \<open>
  Rounding of an exact value to the nearest pattern. \<open>e\<close> is the exponent of the binade
  (the subnormal numbers share the exponent \<open>-126\<close>), \<open>n\<close> the significand in units of the
  last place; a significand of \<open>2 ^ 24\<close> carries into the exponent field, and a result
  beyond the largest finite number is an infinity. \<open>neg\<close> is the sign of the result.
\<close>

definition float_round :: "bool \<Rightarrow> rat \<Rightarrow> float" where
  "float_round neg x =
     (let a = \<bar>x\<bar>;
          e = (if a = 0 then - 126 else max (- 126) (floor_log2 a));
          n = round_half_even (a / pow2 (e - 23));
          bits = (e + 126) * 2 ^ 23 + n
      in if 0x7F800000 \<le> bits then float_infinity neg else float_signbit neg OR word_of_int bits)"

definition float_of_int :: "int \<Rightarrow> float" where
  "float_of_int i = float_round (i < 0) (of_int i)"

definition float_div :: "float \<Rightarrow> float \<Rightarrow> float" where
  "float_div a b =
     (let neg = (float_sign a \<noteq> float_sign b) in
      if float_is_nan a \<or> float_is_nan b then float_nan
      else if float_is_inf a then (if float_is_inf b then float_nan else float_infinity neg)
      else if float_is_inf b then float_signbit neg
      else if float_value b = 0 then (if float_value a = 0 then float_nan else float_infinity neg)
      else float_round neg (float_value a / float_value b))"

definition float_mul :: "float \<Rightarrow> float \<Rightarrow> float" where
  "float_mul a b =
     (let neg = (float_sign a \<noteq> float_sign b) in
      if float_is_nan a \<or> float_is_nan b then float_nan
      else if float_is_inf a then (if \<not> float_is_inf b \<and> float_value b = 0 then float_nan else float_infinity neg)
      else if float_is_inf b then (if float_value a = 0 then float_nan else float_infinity neg)
      else float_round neg (float_value a * float_value b))"

definition float_sub :: "float \<Rightarrow> float \<Rightarrow> float" where
  "float_sub a b =
     (if float_is_nan a \<or> float_is_nan b then float_nan
      else if float_is_inf a then (if float_is_inf b \<and> float_sign a = float_sign b then float_nan else a)
      else if float_is_inf b then float_infinity (\<not> float_sign b)
      else let d = float_value a - float_value b
           in float_round (if d = 0 then float_sign a \<and> \<not> float_sign b else d < 0) d)"

section \<open>Helpers of the reader\<close>

text \<open>
  \<open>toNormalizedFloat\<close> converts an int in the range min..max to a float in the range -1..1.
  The two differences are \<open>int\<close> subtractions; at every call site they lie within the range
  of \<open>int\<close>.
\<close>

definition toNormalizedFloat :: "int \<Rightarrow> int \<Rightarrow> int \<Rightarrow> float" where
  "toNormalizedFloat v mn mx =
     float_sub
       (float_mul (float_div (float_of_int (v - mn)) (float_of_int (mx - mn))) (float_of_int 2))
       (float_of_int 1)"

text \<open>
  Modelled from the spec: the enumeration \<open>SampleFormat\<close> of \<open>WaveFileReader.h\<close>, which is
  not among the sources. Its four values are those the source assigns and switches on.
\<close>

datatype SampleFormat = UInt8 | Int16 | Int24 | Float32

section \<open>The reader\<close>

text \<open>
  Modelled from the spec: the members of the class, declared in \<open>WaveFileReader.h\<close>. The
  names are those the source uses (\<open>fstream\<close> is the member \<open>file\<close>); the numbers are
  \<open>int\<close>, as the getters return them.
\<close>

record WaveFileReader =
  fstream :: ifstream
  sampleFormat :: SampleFormat
  frameRate :: int
  frameCount :: int
  channelCount :: int
  remainingSamples :: int

text \<open>
  The state of the constructor while it walks the chunks: the stream, the local
  \<open>bytesPerSample\<close> (initially 0) and the members assigned by a format chunk, \<open>None\<close> as
  long as they are unassigned.
\<close>

record scan_state =
  scan_file :: ifstream
  bytesPerSample :: int
  scan_sampleFormat :: "SampleFormat option"
  scan_frameRate :: "int option"
  scan_channelCount :: "int option"

text \<open>
  The \<open>switch (codec)\<close> of the format chunk: \<open>Codec::PCM\<close> is 1, \<open>Codec::Float\<close> is 3. It
  yields the sample format and \<open>bytesPerSample\<close>. The PCM branch divides \<open>frameSize\<close> by
  \<open>channelCount\<close>; both are unsigned 16-bit values.
\<close>

definition determineSampleFormat :: "int \<Rightarrow> int \<Rightarrow> int \<Rightarrow> int \<Rightarrow> error + (SampleFormat \<times> int)" where
  "determineSampleFormat codec bitsPerSample frameSize channels =
     (if codec = 1 then
        and_then
          (if bitsPerSample = 8 then Inr (UInt8, 1)
           else if bitsPerSample \<le> 16 then Inr (Int16, 2)
           else if bitsPerSample \<le> 24 then Inr (Int24, 3)
           else Inl (FormatError (UnsupportedIntegerSamples bitsPerSample)))
          (\<lambda>(fmt, bps).
             if channels = 0 then Inl DivisionByZero
             else if bps \<noteq> frameSize div channels then Inl (FormatError UnsupportedSampleOrganization)
             else Inr (fmt, bps))
      else if codec = 3 then
        (if bitsPerSample = 32 then Inr (Float32, 4)
         else Inl (FormatError (UnsupportedFloatSamples bitsPerSample)))
      else Inl (FormatError UnsupportedCodec))"

text \<open>The format chunk, after its identifier and size have been read.\<close>

definition fmt_chunk :: "int \<Rightarrow> scan_state \<Rightarrow> error + scan_state" where
  "fmt_chunk chunkSize s =
     and_then (read_le 2 (scan_file s)) (\<lambda>(codec, f1).
     and_then (read_le 2 f1) (\<lambda>(channels, f2).
     and_then (read_le 4 f2) (\<lambda>(rate, f3).
     and_then (read_le 4 f3) (\<lambda>(bytesPerSecond, f4).
     and_then (read_le 2 f4) (\<lambda>(frameSize, f5).
     and_then (read_le 2 f5) (\<lambda>(bitsPerSample, f6).
     and_then (seekg_cur (int32 (roundToEven chunkSize - 16)) f6) (\<lambda>f7.
     and_then (determineSampleFormat codec bitsPerSample frameSize channels) (\<lambda>(fmt, bps).
       Inr \<lparr>scan_file = f7, bytesPerSample = bps, scan_sampleFormat = Some fmt,
            scan_frameRate = Some (int32 rate), scan_channelCount = Some channels\<rparr>))))))))"

text \<open>The data chunk: two truncating \<open>int\<close> divisions, by \<open>bytesPerSample\<close> and by \<open>channelCount\<close>.\<close>

definition data_chunk :: "int \<Rightarrow> scan_state \<Rightarrow> error + WaveFileReader" where
  "data_chunk chunkSize s =
     (if bytesPerSample s = 0 then Inl DivisionByZero
      else
        let remaining = chunkSize sdiv bytesPerSample s in
        case (scan_channelCount s, scan_sampleFormat s, scan_frameRate s) of
          (Some channels, Some fmt, Some rate) \<Rightarrow>
            if channels = 0 then Inl DivisionByZero
            else Inr \<lparr>fstream = scan_file s, sampleFormat = fmt, frameRate = rate,
                      frameCount = remaining sdiv channels, channelCount = channels,
                      remainingSamples = remaining\<rparr>
        | _ \<Rightarrow> Inl IndeterminateValue)"

text \<open>
  One pass through the body of the \<open>do ... while (!reachedDataChunk)\<close> loop: \<open>Inr (Inl s')\<close>
  when the loop goes on with state \<open>s'\<close>, \<open>Inr (Inr r)\<close> when the data chunk was reached.
\<close>

definition scan_step :: "scan_state \<Rightarrow> error + (scan_state + WaveFileReader)" where
  "scan_step s =
     and_then (read_le 4 (scan_file s)) (\<lambda>(chunkId, f1).
     and_then (read_le 4 f1) (\<lambda>(size, f2).
       let chunkSize = int32 size in
       if chunkId = fourcc CHR ''f'' CHR ''m'' CHR ''t'' CHR '' '' then
         and_then (fmt_chunk chunkSize (s\<lparr>scan_file := f2\<rparr>)) (\<lambda>s'. Inr (Inl s'))
       else if chunkId = fourcc CHR ''d'' CHR ''a'' CHR ''t'' CHR ''a'' then
         and_then (data_chunk chunkSize (s\<lparr>scan_file := f2\<rparr>)) (\<lambda>r. Inr (Inr r))
       else
         and_then (seekg_cur (roundToEven chunkSize) f2) (\<lambda>f3. Inr (Inl (s\<lparr>scan_file := f3\<rparr>)))))"

text \<open>The loop. It need not end: \<open>None\<close> is the constructor that never returns.\<close>

partial_function (option) scan_chunks :: "scan_state \<Rightarrow> (error + WaveFileReader) option" where
  "scan_chunks s =
     (case scan_step s of
        Inl e \<Rightarrow> Some (Inl e)
      | Inr (Inl s') \<Rightarrow> scan_chunks s'
      | Inr (Inr r) \<Rightarrow> Some (Inr r))"

text \<open>The header: signature, container size (ignored) and form type.\<close>

definition read_header :: "ifstream \<Rightarrow> error + ifstream" where
  "read_header f =
     and_then (read_le 4 f) (\<lambda>(rootChunkId, f1).
       if rootChunkId \<noteq> fourcc CHR ''R'' CHR ''I'' CHR ''F'' CHR ''F''
       then Inl (FormatError UnknownFileFormat)
       else
         and_then (read_le 4 f1) (\<lambda>(chunkSize, f2).
         and_then (read_le 4 f2) (\<lambda>(waveId, f3).
           if waveId \<noteq> fourcc CHR ''W'' CHR ''A'' CHR ''V'' CHR ''E''
           then Inl (FormatError (NotWave (fourccToString waveId)))
           else Inr f3)))"

text \<open>The constructor, applied to the bytes of the file it opens.\<close>

definition WaveFileReader :: "byte list \<Rightarrow> (error + WaveFileReader) option" where
  "WaveFileReader bytes =
     (case read_header \<lparr>content = bytes, gpos = 0\<rparr> of
        Inl e \<Rightarrow> Some (Inl e)
      | Inr f \<Rightarrow>
          scan_chunks \<lparr>scan_file = f, bytesPerSample = 0, scan_sampleFormat = None,
                       scan_frameRate = None, scan_channelCount = None\<rparr>)"

definition getFrameRate :: "WaveFileReader \<Rightarrow> int" where
  "getFrameRate r = frameRate r"

definition getFrameCount :: "WaveFileReader \<Rightarrow> int" where
  "getFrameCount r = frameCount r"

definition getChannelCount :: "WaveFileReader \<Rightarrow> int" where
  "getChannelCount r = channelCount r"

text \<open>
  \<open>getNextSample\<close> takes the reader and the caller's variable \<open>sample\<close>, and returns the
  boolean result with the two updated. When the read throws, the counter has already been
  decremented; the result is then the error alone.
\<close>

definition getNextSample :: "WaveFileReader \<Rightarrow> float \<Rightarrow> error + (bool \<times> WaveFileReader \<times> float)" where
  "getNextSample r sample =
     (if remainingSamples r = 0 then Inr (False, r, sample)
      else
        let r1 = r\<lparr>remainingSamples := int32 (remainingSamples r - 1)\<rparr> in
        case sampleFormat r1 of
          UInt8 \<Rightarrow>
            and_then (read_le 1 (fstream r1)) (\<lambda>(raw, f).
              Inr (True, r1\<lparr>fstream := f\<rparr>, toNormalizedFloat raw 0 UINT8_MAX))
        | Int16 \<Rightarrow>
            and_then (read_le 2 (fstream r1)) (\<lambda>(v, f).
              let raw = sint (word_of_int v :: 16 word)
              in Inr (True, r1\<lparr>fstream := f\<rparr>, toNormalizedFloat raw INT16_MIN INT16_MAX))
        | Int24 \<Rightarrow>
            and_then (read_le 3 (fstream r1)) (\<lambda>(v, f).
              let raw = (word_of_int v :: 32 word);
                  raw = (if raw AND 0x800000 \<noteq> 0 then raw OR 0xFF000000 else raw)
              in Inr (True, r1\<lparr>fstream := f\<rparr>, toNormalizedFloat (sint raw) INT24_MIN INT24_MAX))
        | Float32 \<Rightarrow>
            and_then (read_le 4 (fstream r1)) (\<lambda>(v, f).
              Inr (True, r1\<lparr>fstream := f\<rparr>, word_of_int v)))"

text \<open>
  \<open>n\<close> calls of \<open>getNextSample\<close> in a row on one variable \<open>sample\<close>: for each call its
  boolean result and the value of \<open>sample\<close> after it, and the reader after the last call.
\<close>

fun getNextSamples :: "nat \<Rightarrow> WaveFileReader \<Rightarrow> float \<Rightarrow> error + ((bool \<times> float) list \<times> WaveFileReader)" where
  "getNextSamples 0 r sample = Inr ([], r)"
| "getNextSamples (Suc n) r sample =
     and_then (getNextSample r sample) (\<lambda>(b, r', sample').
     and_then (getNextSamples n r' sample') (\<lambda>(results, r''). Inr ((b, sample') # results, r'')))"

text \<open>The number of bytes \<open>getNextSample\<close> reads for a sample of each format.\<close>

fun sampleSize :: "SampleFormat \<Rightarrow> nat" where
  "sampleSize UInt8 = 1"
| "sampleSize Int16 = 2"
| "sampleSize Int24 = 3"
| "sampleSize Float32 = 4"

section \<open>The exhausted stream\<close>

text \<open>
  C10. A call of \<open>getNextSample\<close> on a reader whose \<open>remainingSamples\<close> is zero returns false
  and changes nothing: the reader (its counter and the stream with its get position) and
  the caller's variable are returned as they were, and no error can arise since nothing
  is read.
\<close>

theorem getNextSample_exhausted:
  "remainingSamples r = 0 \<Longrightarrow> getNextSample r sample = Inr (False, r, sample)"
  by (simp add: getNextSample_def)

theorem getNextSample_exhausted_witness:
  "getNextSample
     \<lparr>fstream = \<lparr>content = [0x12, 0x34], gpos = 2\<rparr>, sampleFormat = Int16, frameRate = 44100,
      frameCount = 1, channelCount = 1, remainingSamples = 0\<rparr> 0x3F000000
   = Inr (False,
     \<lparr>fstream = \<lparr>content = [0x12, 0x34], gpos = 2\<rparr>, sampleFormat = Int16, frameRate = 44100,
      frameCount = 1, channelCount = 1, remainingSamples = 0\<rparr>, 0x3F000000)"
  using getNextSample_exhausted
    [of "\<lparr>fstream = \<lparr>content = [0x12, 0x34], gpos = 2\<rparr>, sampleFormat = Int16, frameRate = 44100,
      frameCount = 1, channelCount = 1, remainingSamples = 0\<rparr>" "0x3F000000"]
  by simp

section \<open>Reading from the stream\<close>

lemma read_le_ok:
  "gpos f + n \<le> length (content f) \<Longrightarrow>
   read_le n f = Inr (le_value (take n (drop (gpos f) (content f))), f\<lparr>gpos := gpos f + n\<rparr>)"
  by (simp add: read_le_def read_bytes_def and_then_def)

lemma read_le_fail: "\<not> gpos f + n \<le> length (content f) \<Longrightarrow> read_le n f = Inl IOError"
  by (simp add: read_le_def read_bytes_def and_then_def)

lemma take_drop_avail:
  assumes "take n (drop p xs) = ys" and "length ys = n" and "0 < n"
  shows "p + n \<le> length xs"
proof -
  have "length (take n (drop p xs)) = n" using assms by simp
  then show ?thesis using assms(3) by (simp add: min_def split: if_splits)
qed

lemma le_value_horner: "le_value bs = horner_sum uint 256 bs"
  by (induction bs) simp_all

lemma le_value_rcat: "word_of_int (le_value bs) = word_rcat (rev bs)"
  by (simp add: word_rcat_def le_value_horner)

lemma le_value_bounds: "0 \<le> le_value bs \<and> le_value bs < 256 ^ length bs"
proof (induction bs)
  case Nil
  then show ?case by simp
next
  case (Cons b bs)
  have "uint b < 256" using uint_bounded [of b] by simp
  with Cons show ?case by simp
qed

section \<open>Machine integers: conversions and sign extension\<close>

lemma sint32_eq: "- (2 ^ 31) \<le> k \<Longrightarrow> k < 2 ^ 31 \<Longrightarrow> sint (word_of_int k :: 32 word) = k"
  by (simp add: sint_sbintrunc' signed_take_bit_int_eq_self)

lemma int32_eq: "- (2 ^ 31) \<le> k \<Longrightarrow> k < 2 ^ 31 \<Longrightarrow> int32 k = k"
  by (simp add: int32_def sint32_eq)

lemma and_push_bit_24: "(word_of_int (take_bit 24 v) :: 32 word) AND push_bit 24 x = 0"
  by (rule bit_word_eqI)
    (auto simp add: bit_and_iff bit_word_of_int_iff bit_take_bit_iff bit_push_bit_iff)

lemma or_top_byte:
  assumes "0 \<le> v" "v < 2 ^ 24"
  shows "(word_of_int v :: 32 word) OR 0xFF000000 = word_of_int (v - 2 ^ 24)"
proof -
  have v: "take_bit 24 v = v" using assms by (simp add: take_bit_int_eq_self)
  have C: "(0xFF000000 :: 32 word) = push_bit 24 255" by simp
  have "(word_of_int v :: 32 word) AND 0xFF000000 = 0"
    using and_push_bit_24 [of v 255] by (simp only: v C)
  then have "(word_of_int v :: 32 word) OR 0xFF000000 = word_of_int v + 0xFF000000"
    by (simp only: disjunctive_add_eq_or)
  also have "\<dots> = word_of_int (v - 2 ^ 24)" by simp
  finally show ?thesis .
qed

lemma bit_23_set:
  assumes "0 \<le> v" "v < 2 ^ 24"
  shows "((word_of_int v :: 32 word) AND 0x800000 \<noteq> 0) = (2 ^ 23 \<le> v)"
proof -
  have e: "(0x800000 :: 32 word) = 2 ^ 23" by simp
  have "((word_of_int v :: 32 word) AND 2 ^ 23 \<noteq> 0) = bit (word_of_int v :: 32 word) 23"
    by (simp only: and_exp_eq_0_iff_not_bit not_not)
  also have "\<dots> = bit v 23" by (simp add: bit_word_of_int_iff)
  also have "\<dots> = (2 ^ 23 \<le> v)"
  proof -
    have "v div 2 ^ 23 = 0 \<or> v div 2 ^ 23 = 1" using assms by auto
    then show ?thesis using assms by (auto simp: bit_iff_odd)
  qed
  finally show ?thesis by (simp only: e)
qed

text \<open>The fix-up of \<open>getNextSample\<close> for 24-bit samples yields the two's complement value.\<close>

lemma sign_extend_24:
  assumes "0 \<le> v" "v < 2 ^ 24"
  shows "sint (if (word_of_int v :: 32 word) AND 0x800000 \<noteq> 0
               then word_of_int v OR 0xFF000000 else (word_of_int v :: 32 word))
     = (if v < 2 ^ 23 then v else v - 2 ^ 24)"
proof (cases "v < 2 ^ 23")
  case True
  then have "sint (word_of_int v :: 32 word) = v" using assms by (intro sint32_eq) auto
  then show ?thesis using True bit_23_set [OF assms] by simp
next
  case False
  then have "sint (word_of_int (v - 2 ^ 24) :: 32 word) = v - 2 ^ 24"
    using assms by (intro sint32_eq) auto
  then show ?thesis using False bit_23_set [OF assms] or_top_byte [OF assms] by simp
qed

lemma sint_24:
  assumes "0 \<le> v" "v < 2 ^ 24"
  shows "sint (word_of_int v :: 24 word) = (if v < 2 ^ 23 then v else v - 2 ^ 24)"
proof (cases "v < 2 ^ 23")
  case True
  then show ?thesis using assms by (simp add: sint_sbintrunc' signed_take_bit_int_eq_self)
next
  case False
  have "(word_of_int v :: 24 word) = word_of_int (v - 2 ^ 24)" by simp
  then have "sint (word_of_int v :: 24 word) = signed_take_bit 23 (v - 2 ^ 24)"
    by (simp only: sint_sbintrunc') simp
  also have "\<dots> = v - 2 ^ 24" using False assms by (intro signed_take_bit_int_eq_self) auto
  finally show ?thesis using False by simp
qed

section \<open>Normalization\<close>

text \<open>
  The arithmetic at some values: an integer of more than 24 bits is rounded to the nearest
  float, ties to the even significand; \<open>1 / 3\<close> is rounded; a division by zero gives an
  infinity or a NaN.
\<close>

lemma float_of_int_examples:
  "float_of_int 0 = 0 \<and> float_of_int 1 = 0x3F800000 \<and> float_of_int 2 = 0x40000000 \<and>
   float_of_int (- 1) = 0xBF800000 \<and> float_of_int 16777215 = 0x4B7FFFFF \<and>
   float_of_int 16777217 = 0x4B800000 \<and> float_of_int 16777219 = 0x4B800002"
  by code_simp

lemma float_div_examples:
  "float_div 0x3F800000 0x40400000 = 0x3EAAAAAB \<and>
   float_div 0x3F800000 0 = 0x7F800000 \<and>
   float_div 0 0 = float_nan"
  by code_simp

lemma toNormalizedFloat_u8:
  "toNormalizedFloat 0 0 255 = 0xBF800000 \<and> toNormalizedFloat 255 0 255 = 0x3F800000"
  by code_simp

lemma toNormalizedFloat_i16:
  "toNormalizedFloat (- 32768) (- 32768) 32767 = 0xBF800000 \<and>
   toNormalizedFloat 32767 (- 32768) 32767 = 0x3F800000"
  by code_simp

lemma toNormalizedFloat_i24:
  "toNormalizedFloat (- 8388608) (- 8388608) 8388607 = 0xBF800000 \<and>
   toNormalizedFloat 8388607 (- 8388608) 8388607 = 0x3F800000"
  by code_simp

lemma float_value_one: "float_value 0x3F800000 = 1 \<and> float_value 0xBF800000 = - 1"
  by code_simp

text \<open>
  C7. For each of the three pairs of bounds the reader uses, \<open>toNormalizedFloat\<close> maps the
  lower bound to the pattern \<open>0xBF800000\<close> and the upper bound to the pattern \<open>0x3F800000\<close>,
  and these two patterns are the numbers \<open>-1\<close> and \<open>1\<close>: no rounding error at either end.
\<close>

theorem toNormalizedFloat_endpoints:
  "toNormalizedFloat 0 0 UINT8_MAX = 0xBF800000 \<and>
   toNormalizedFloat UINT8_MAX 0 UINT8_MAX = 0x3F800000 \<and>
   toNormalizedFloat INT16_MIN INT16_MIN INT16_MAX = 0xBF800000 \<and>
   toNormalizedFloat INT16_MAX INT16_MIN INT16_MAX = 0x3F800000 \<and>
   toNormalizedFloat INT24_MIN INT24_MIN INT24_MAX = 0xBF800000 \<and>
   toNormalizedFloat INT24_MAX INT24_MIN INT24_MAX = 0x3F800000 \<and>
   float_value 0xBF800000 = - 1 \<and> float_value 0x3F800000 = 1"
  by (simp add: toNormalizedFloat_u8 toNormalizedFloat_i16 toNormalizedFloat_i24 float_value_one
      UINT8_MAX_def INT16_MIN_def INT16_MAX_def INT24_MIN_def INT24_MAX_def)

section \<open>Decoding a sample\<close>

subsection \<open>32-bit float samples\<close>

text \<open>
  C6. In a Float32 stream that is not exhausted and has four bytes left, \<open>getNextSample\<close>
  returns true, consumes the four bytes and stores in \<open>sample\<close> the pattern made of exactly
  these bytes (least significant first): the stored float is handed on as it is, whatever
  its value. The bytes \<open>00 00 00 3F\<close> are the number 0.5 and come out as 0.5; the bytes
  \<open>00 00 20 41\<close> are the number 10, outside the range -1..1, and come out as 10.
\<close>

theorem getNextSample_Float32:
  assumes "sampleFormat r = Float32" and "remainingSamples r \<noteq> 0"
    and "take 4 (drop (gpos (fstream r)) (content (fstream r))) = [b0, b1, b2, b3]"
  shows "getNextSample r sample =
     Inr (True,
          r\<lparr>remainingSamples := int32 (remainingSamples r - 1),
            fstream := (fstream r)\<lparr>gpos := gpos (fstream r) + 4\<rparr>\<rparr>,
          word_rcat [b3, b2, b1, b0])"
proof -
  have "gpos (fstream r) + 4 \<le> length (content (fstream r))"
    using assms(3) by (intro take_drop_avail [where ys = "[b0, b1, b2, b3]"]) auto
  then show ?thesis
    using assms
    by (simp add: getNextSample_def read_le_ok and_then_def le_value_rcat Let_def
        del: le_value.simps)
qed

lemma float_value_examples: "float_value 0x3F000000 = 1 / 2 \<and> float_value 0x41200000 = 10"
  by code_simp

theorem getNextSample_Float32_witness:
  "getNextSample
     \<lparr>fstream = \<lparr>content = [0x00, 0x00, 0x00, 0x3F, 0x00, 0x00, 0x20, 0x41], gpos = 0\<rparr>,
      sampleFormat = Float32, frameRate = 44100, frameCount = 2, channelCount = 1,
      remainingSamples = 2\<rparr> 0
   = Inr (True,
     \<lparr>fstream = \<lparr>content = [0x00, 0x00, 0x00, 0x3F, 0x00, 0x00, 0x20, 0x41], gpos = 4\<rparr>,
      sampleFormat = Float32, frameRate = 44100, frameCount = 2, channelCount = 1,
      remainingSamples = 1\<rparr>, 0x3F000000) \<and>
   float_value 0x3F000000 = 1 / 2 \<and>
   getNextSample
     \<lparr>fstream = \<lparr>content = [0x00, 0x00, 0x00, 0x3F, 0x00, 0x00, 0x20, 0x41], gpos = 4\<rparr>,
      sampleFormat = Float32, frameRate = 44100, frameCount = 2, channelCount = 1,
      remainingSamples = 1\<rparr> 0x3F000000
   = Inr (True,
     \<lparr>fstream = \<lparr>content = [0x00, 0x00, 0x00, 0x3F, 0x00, 0x00, 0x20, 0x41], gpos = 8\<rparr>,
      sampleFormat = Float32, frameRate = 44100, frameCount = 2, channelCount = 1,
      remainingSamples = 0\<rparr>, 0x41200000) \<and>
   float_value 0x41200000 = 10"
  using getNextSample_Float32
    [of "\<lparr>fstream = \<lparr>content = [0x00, 0x00, 0x00, 0x3F, 0x00, 0x00, 0x20, 0x41], gpos = 0\<rparr>,
      sampleFormat = Float32, frameRate = 44100, frameCount = 2, channelCount = 1,
      remainingSamples = 2\<rparr>" 0 0 0 "0x3F" 0]
    getNextSample_Float32
    [of "\<lparr>fstream = \<lparr>content = [0x00, 0x00, 0x00, 0x3F, 0x00, 0x00, 0x20, 0x41], gpos = 4\<rparr>,
      sampleFormat = Float32, frameRate = 44100, frameCount = 2, channelCount = 1,
      remainingSamples = 1\<rparr>" 0 0 "0x20" "0x41" "0x3F000000"]
  by (simp add: float_value_examples int32_def word_rcat_def)

subsection \<open>24-bit samples\<close>

lemma sint_rcat_24:
  "sint (word_rcat [b2, b1, b0 :: byte] :: 24 word) =
     (if le_value [b0, b1, b2] < 2 ^ 23 then le_value [b0, b1, b2] else le_value [b0, b1, b2] - 2 ^ 24)"
proof -
  define v where "v = le_value [b0, b1, b2]"
  have w: "(word_rcat [b2, b1, b0] :: 24 word) = word_of_int v"
    by (simp add: word_rcat_def le_value_horner v_def)
  have b: "0 \<le> v" "v < 2 ^ 24"
    using le_value_bounds [of "[b0, b1, b2]"] by (simp_all add: v_def del: le_value.simps)
  have "sint (word_of_int v :: 24 word) = (if v < 2 ^ 23 then v else v - 2 ^ 24)"
    by (rule sint_24 [OF b])
  then show ?thesis by (simp only: w v_def)
qed

text \<open>
  C5, as amended. In an Int24 stream that is not exhausted and has three bytes \<open>b0 b1 b2\<close>
  left (in stream order, least significant first), \<open>getNextSample\<close> returns true, consumes
  them and stores \<open>toNormalizedFloat raw INT24_MIN INT24_MAX\<close>, where \<open>raw\<close> is the two's
  complement value of the 24-bit number with bytes \<open>b2 b1 b0\<close>: the zero-extended value with
  bits 24 to 31 set when bit 23 is. \<open>raw\<close> lies between \<open>INT24_MIN\<close> and \<open>INT24_MAX\<close>. The bytes
  \<open>FF FF 7F\<close> (value \<open>0x7FFFFF\<close>) decode to exactly 1 and the bytes \<open>00 00 80\<close> (value
  \<open>0x800000\<close>) to exactly -1.
\<close>

theorem getNextSample_Int24:
  assumes "sampleFormat r = Int24" and "remainingSamples r \<noteq> 0"
    and "take 3 (drop (gpos (fstream r)) (content (fstream r))) = [b0, b1, b2]"
  shows "getNextSample r sample =
     Inr (True,
          r\<lparr>remainingSamples := int32 (remainingSamples r - 1),
            fstream := (fstream r)\<lparr>gpos := gpos (fstream r) + 3\<rparr>\<rparr>,
          toNormalizedFloat (sint (word_rcat [b2, b1, b0] :: 24 word)) INT24_MIN INT24_MAX) \<and>
     INT24_MIN \<le> sint (word_rcat [b2, b1, b0] :: 24 word) \<and>
     sint (word_rcat [b2, b1, b0] :: 24 word) \<le> INT24_MAX"
proof -
  define v where "v = le_value [b0, b1, b2]"
  have avail: "gpos (fstream r) + 3 \<le> length (content (fstream r))"
    using assms(3) by (intro take_drop_avail [where ys = "[b0, b1, b2]"]) auto
  have b: "0 \<le> v" "v < 2 ^ 24"
    using le_value_bounds [of "[b0, b1, b2]"] by (simp_all add: v_def del: le_value.simps)
  have s24: "sint (word_rcat [b2, b1, b0] :: 24 word) = (if v < 2 ^ 23 then v else v - 2 ^ 24)"
    by (simp only: sint_rcat_24 v_def)
  have ext: "sint (if (word_of_int v :: 32 word) AND 0x800000 \<noteq> 0
               then word_of_int v OR 0xFF000000 else (word_of_int v :: 32 word))
     = sint (word_rcat [b2, b1, b0] :: 24 word)"
    by (simp only: sign_extend_24 [OF b] s24)
  have "getNextSample r sample =
     Inr (True,
          r\<lparr>remainingSamples := int32 (remainingSamples r - 1),
            fstream := (fstream r)\<lparr>gpos := gpos (fstream r) + 3\<rparr>\<rparr>,
          toNormalizedFloat (sint (if (word_of_int v :: 32 word) AND 0x800000 \<noteq> 0
               then word_of_int v OR 0xFF000000 else (word_of_int v :: 32 word))) INT24_MIN INT24_MAX)"
    using assms avail
    by (simp add: getNextSample_def read_le_ok and_then_def Let_def v_def del: le_value.simps)
  then have "getNextSample r sample =
     Inr (True,
          r\<lparr>remainingSamples := int32 (remainingSamples r - 1),
            fstream := (fstream r)\<lparr>gpos := gpos (fstream r) + 3\<rparr>\<rparr>,
          toNormalizedFloat (sint (word_rcat [b2, b1, b0] :: 24 word)) INT24_MIN INT24_MAX)"
    by (simp only: ext)
  moreover have "INT24_MIN \<le> sint (word_rcat [b2, b1, b0] :: 24 word)"
    using b by (simp add: s24 INT24_MIN_def)
  moreover have "sint (word_rcat [b2, b1, b0] :: 24 word) \<le> INT24_MAX"
    using b by (simp add: s24 INT24_MAX_def)
  ultimately show ?thesis by blast
qed

theorem getNextSample_Int24_witness:
  "getNextSample
     \<lparr>fstream = \<lparr>content = [0xFF, 0xFF, 0x7F, 0x00, 0x00, 0x80], gpos = 0\<rparr>, sampleFormat = Int24,
      frameRate = 44100, frameCount = 2, channelCount = 1, remainingSamples = 2\<rparr> 0
   = Inr (True,
     \<lparr>fstream = \<lparr>content = [0xFF, 0xFF, 0x7F, 0x00, 0x00, 0x80], gpos = 3\<rparr>, sampleFormat = Int24,
      frameRate = 44100, frameCount = 2, channelCount = 1, remainingSamples = 1\<rparr>, 0x3F800000) \<and>
   float_value 0x3F800000 = 1 \<and>
   getNextSample
     \<lparr>fstream = \<lparr>content = [0xFF, 0xFF, 0x7F, 0x00, 0x00, 0x80], gpos = 3\<rparr>, sampleFormat = Int24,
      frameRate = 44100, frameCount = 2, channelCount = 1, remainingSamples = 1\<rparr> 0x3F800000
   = Inr (True,
     \<lparr>fstream = \<lparr>content = [0xFF, 0xFF, 0x7F, 0x00, 0x00, 0x80], gpos = 6\<rparr>, sampleFormat = Int24,
      frameRate = 44100, frameCount = 2, channelCount = 1, remainingSamples = 0\<rparr>, 0xBF800000) \<and>
   float_value 0xBF800000 = - 1"
  using getNextSample_Int24
    [of "\<lparr>fstream = \<lparr>content = [0xFF, 0xFF, 0x7F, 0x00, 0x00, 0x80], gpos = 0\<rparr>, sampleFormat = Int24,
      frameRate = 44100, frameCount = 2, channelCount = 1, remainingSamples = 2\<rparr>" "0xFF" "0xFF" "0x7F" 0]
    getNextSample_Int24
    [of "\<lparr>fstream = \<lparr>content = [0xFF, 0xFF, 0x7F, 0x00, 0x00, 0x80], gpos = 3\<rparr>, sampleFormat = Int24,
      frameRate = 44100, frameCount = 2, channelCount = 1, remainingSamples = 1\<rparr>" 0 0 "0x80" "0x3F800000"]
  by (simp add: float_value_one int32_def word_rcat_def INT24_MIN_def INT24_MAX_def toNormalizedFloat_i24)

text \<open>
  The bytes \<open>7F FF FF\<close> in stream order are the value \<open>0xFFFF7F\<close>, that is -129, and decode
  to \<open>-257 / 16777216\<close>, not to a number near 1.
\<close>

lemma toNormalizedFloat_minus_129:
  "toNormalizedFloat (- 129) (- 8388608) 8388607 = 0xB7808000 \<and>
   float_value 0xB7808000 = - (257 / 16777216)"
  by code_simp

theorem getNextSample_Int24_counterexample:
  "getNextSample
     \<lparr>fstream = \<lparr>content = [0x7F, 0xFF, 0xFF], gpos = 0\<rparr>, sampleFormat = Int24,
      frameRate = 44100, frameCount = 1, channelCount = 1, remainingSamples = 1\<rparr> 0
   = Inr (True,
     \<lparr>fstream = \<lparr>content = [0x7F, 0xFF, 0xFF], gpos = 3\<rparr>, sampleFormat = Int24,
      frameRate = 44100, frameCount = 1, channelCount = 1, remainingSamples = 0\<rparr>, 0xB7808000) \<and>
   float_value 0xB7808000 = - (257 / 16777216)"
  by (simp add: getNextSample_def read_le_def read_bytes_def and_then_def int32_def
      INT24_MIN_def INT24_MAX_def toNormalizedFloat_minus_129)

section \<open>Bytes, identifiers and tags\<close>

lemma byte_split:
  fixes a x :: int
  assumes "0 \<le> a" "a < 256"
  shows "(a + 256 * x) mod 256 = a" and "(a + 256 * x) div 256 = x"
  using assms by simp_all

lemma uint_byte: "0 \<le> uint (b :: byte) \<and> uint b < 256"
  using uint_bounded [of b] by simp

lemma le_value_inj:
  "length xs = length ys \<Longrightarrow> le_value xs = le_value ys \<Longrightarrow> xs = ys"
proof (induction xs arbitrary: ys)
  case Nil
  then show ?case by simp
next
  case (Cons x xs)
  then obtain y ys' where ys: "ys = y # ys'" by (cases ys) auto
  from Cons.prems ys have eq: "uint x + 256 * le_value xs = uint y + 256 * le_value ys'" by simp
  have "(uint x + 256 * le_value xs) mod 256 = uint x" "(uint y + 256 * le_value ys') mod 256 = uint y"
    using uint_byte by (simp_all only: byte_split)
  with eq have xy: "uint x = uint y" by simp
  with eq have "le_value xs = le_value ys'" by simp
  moreover from Cons.prems ys have "length xs = length ys'" by simp
  ultimately have "xs = ys'" by (rule Cons.IH [rotated])
  moreover from xy have "x = y" by (simp add: word_uint_eq_iff)
  ultimately show ?case using ys by simp
qed

lemma fourccToString_le_value:
  "fourccToString (le_value [b0, b1, b2, b3]) = map (\<lambda>b. char_of (uint b)) [b0, b1, b2, b3]"
proof -
  define v1 where "v1 = uint b1 + 256 * (uint b2 + 256 * uint b3)"
  define v2 where "v2 = uint b2 + 256 * uint b3"
  have v: "le_value [b0, b1, b2, b3] = uint b0 + 256 * v1" by (simp add: v1_def)
  have d1: "(uint b0 + 256 * v1) div 256 = v1" "(uint b0 + 256 * v1) mod 256 = uint b0"
    using uint_byte by (simp_all only: byte_split)
  have d2: "v1 div 256 = v2" "v1 mod 256 = uint b1"
    unfolding v1_def v2_def using uint_byte by (simp_all only: byte_split)
  have d3: "v2 div 256 = uint b3" "v2 mod 256 = uint b2"
    unfolding v2_def using uint_byte by (simp_all only: byte_split)
  have e2: "(uint b0 + 256 * v1) div 65536 = v2"
    using zdiv_zmult2_eq [of 256 "uint b0 + 256 * v1" 256] by (simp add: d1 d2)
  have e3: "(uint b0 + 256 * v1) div 16777216 = uint b3"
    using zdiv_zmult2_eq [of 256 "uint b0 + 256 * v1" 65536] by (simp add: e2 d3)
  have b3: "uint b3 mod 256 = uint b3" using uint_byte [of b3] by simp
  show ?thesis
    by (simp only: v fourccToString_def d1 d2 d3 e2 e3 b3) simp
qed

lemma uint_of_char: "uint (of_char c :: byte) = of_char c"
proof -
  have "(of_char c :: byte) = word_of_int (of_char c)" by (simp add: of_int_of_char)
  then have "uint (of_char c :: byte) = of_char c mod 256"
    by (simp only: uint_word_of_int_eq take_bit_eq_mod) simp
  then show ?thesis by simp
qed

lemma fourcc_le_value:
  "fourcc c0 c1 c2 c3 = le_value [of_char c0, of_char c1, of_char c2, of_char c3]"
  by (simp add: fourcc_def uint_of_char)

lemma le_value_eq_fourcc:
  assumes "length bs = 4"
  shows "le_value bs = fourcc c0 c1 c2 c3 \<longleftrightarrow> bs = map of_char [c0, c1, c2, c3]"
proof
  assume "le_value bs = fourcc c0 c1 c2 c3"
  then have "le_value bs = le_value (map of_char [c0, c1, c2, c3])"
    by (simp add: fourcc_le_value)
  with assms show "bs = map of_char [c0, c1, c2, c3]"
    by (intro le_value_inj) simp_all
next
  assume "bs = map of_char [c0, c1, c2, c3]"
  then show "le_value bs = fourcc c0 c1 c2 c3" by (simp add: fourcc_le_value)
qed

lemma length4E:
  assumes "length xs = 4"
  obtains a b c d where "xs = [a, b, c, d]"
  using assms by (auto simp: length_Suc_conv numeral_eq_Suc)

lemma read_header_bad_signature:
  assumes "4 \<le> length bytes" and "take 4 bytes \<noteq> map of_char ''RIFF''"
  shows "read_header \<lparr>content = bytes, gpos = 0\<rparr> = Inl (FormatError UnknownFileFormat)"
proof -
  have "length (take 4 bytes) = 4" using assms(1) by simp
  then have "le_value (take 4 bytes) \<noteq> fourcc CHR ''R'' CHR ''I'' CHR ''F'' CHR ''F''"
    using assms(2) by (simp only: le_value_eq_fourcc) simp
  then show ?thesis
    using assms(1) by (simp add: read_header_def read_le_ok and_then_def del: le_value.simps)
qed

lemma read_header_bad_form_type:
  assumes "12 \<le> length bytes" and "take 4 bytes = map of_char ''RIFF''"
    and "take 4 (drop 8 bytes) \<noteq> map of_char ''WAVE''"
  shows "read_header \<lparr>content = bytes, gpos = 0\<rparr> =
    Inl (FormatError (NotWave (map (\<lambda>b. char_of (uint b)) (take 4 (drop 8 bytes)))))"
proof -
  have l1: "length (take 4 bytes) = 4" and l2: "length (take 4 (drop 8 bytes)) = 4"
    using assms(1) by simp_all
  have sig: "le_value (take 4 bytes) = fourcc CHR ''R'' CHR ''I'' CHR ''F'' CHR ''F''"
    by (simp add: assms(2) fourcc_def)
  have form: "le_value (take 4 (drop 8 bytes)) \<noteq> fourcc CHR ''W'' CHR ''A'' CHR ''V'' CHR ''E''"
    using assms(3) by (simp only: le_value_eq_fourcc [OF l2]) simp
  obtain a b c d where tag: "take 4 (drop 8 bytes) = [a, b, c, d]"
    using l2 by (rule length4E)
  have str: "fourccToString (le_value (take 4 (drop 8 bytes))) =
      map (\<lambda>b. char_of (uint b)) (take 4 (drop 8 bytes))"
    by (simp only: tag fourccToString_le_value)
  show ?thesis
    using assms(1) sig form
    by (simp add: read_header_def read_le_ok and_then_def str del: le_value.simps)
qed

section \<open>The header\<close>

text \<open>
  C9. Applied to a file of at least four bytes that does not start with the ASCII
  characters \<open>RIFF\<close>, the constructor fails with the \<open>runtime_error\<close> for an unknown file
  format. Applied to a file of at least twelve bytes that starts with \<open>RIFF\<close> and whose
  bytes 8 to 11 are not \<open>WAVE\<close>, it fails with the \<open>runtime_error\<close> whose message carries
  these four bytes as the tag. In both cases the result is an error and no reader.
\<close>

theorem WaveFileReader_rejects_header:
  "(4 \<le> length bytes \<and> take 4 bytes \<noteq> map of_char ''RIFF'' \<longrightarrow>
      WaveFileReader bytes = Some (Inl (FormatError UnknownFileFormat))) \<and>
   (12 \<le> length bytes \<and> take 4 bytes = map of_char ''RIFF'' \<and>
    take 4 (drop 8 bytes) \<noteq> map of_char ''WAVE'' \<longrightarrow>
      WaveFileReader bytes =
        Some (Inl (FormatError (NotWave (map (\<lambda>b. char_of (uint b)) (take 4 (drop 8 bytes)))))))"
  by (simp add: WaveFileReader_def read_header_bad_signature read_header_bad_form_type)

theorem WaveFileReader_rejects_header_witness:
  "WaveFileReader [0x52, 0x49, 0x46, 0x58, 0x04, 0, 0, 0, 0x57, 0x41, 0x56, 0x45] =
     Some (Inl (FormatError UnknownFileFormat)) \<and>
   WaveFileReader [0x52, 0x49, 0x46, 0x46, 0x04, 0, 0, 0, 0x41, 0x56, 0x49, 0x20] =
     Some (Inl (FormatError (NotWave ''AVI '')))"
  using WaveFileReader_rejects_header [of "[0x52, 0x49, 0x46, 0x58, 0x04, 0, 0, 0, 0x57, 0x41, 0x56, 0x45]"]
    WaveFileReader_rejects_header [of "[0x52, 0x49, 0x46, 0x46, 0x04, 0, 0, 0, 0x41, 0x56, 0x49, 0x20]"]
  by (simp add: char_of_eq_iff)

section \<open>Skipping a chunk\<close>

lemma and_not_1_int: "(k::int) AND NOT 1 = 2 * (k div 2)"
proof (rule bit_eqI)
  fix n
  have "bit (k AND NOT 1) n \<longleftrightarrow> bit k n \<and> n \<noteq> 0"
    by (simp only: bit_and_iff bit_not_int_iff bit_1_iff)
  also have "\<dots> \<longleftrightarrow> bit (2 * (k div 2)) n"
    by (cases n) (simp_all add: bit_double_iff bit_Suc)
  finally show "bit (k AND NOT 1) n = bit (2 * (k div 2)) n" .
qed

lemma roundToEven_int: "roundToEven i = int32 (2 * ((i + 1) div 2))"
proof -
  have "((word_of_int i :: 32 word) + 1) AND NOT 1 = word_of_int ((i + 1) AND NOT 1)"
    by (simp add: of_int_and_eq of_int_not_eq)
  then show ?thesis by (simp only: roundToEven_def int32_def and_not_1_int)
qed

lemma roundToEven_up:
  assumes "0 \<le> i" and "i \<le> 2 ^ 31 - 2"
  shows "roundToEven i = i + i mod 2"
proof -
  have "2 * ((i + 1) div 2) = i + i mod 2" by presburger
  moreover have "0 \<le> i mod 2" "i mod 2 \<le> 1" "even (i + i mod 2)" by presburger+
  then have "- (2 ^ 31) \<le> i + i mod 2" "i + i mod 2 < 2 ^ 31" using assms by auto
  then have "int32 (i + i mod 2) = i + i mod 2" by (rule int32_eq)
  ultimately show ?thesis by (simp only: roundToEven_int)
qed

text \<open>
  A chunk that is skipped. When the eight bytes at the get position are the header of a
  chunk whose identifier is neither \<open>fmt \<close> nor \<open>data\<close> and whose declared size \<open>n\<close> is at
  most \<open>2 ^ 31 - 2\<close>, one pass of the loop leaves everything but the get position unchanged
  and moves the get position past the header and past \<open>n\<close> bytes rounded up to the next
  even number.
\<close>

lemma scan_step_skips_unknown_chunk:
  assumes avail: "gpos (scan_file s) + 8 \<le> length (content (scan_file s))"
    and fmt: "take 4 (drop (gpos (scan_file s)) (content (scan_file s))) \<noteq> map of_char ''fmt ''"
    and data: "take 4 (drop (gpos (scan_file s)) (content (scan_file s))) \<noteq> map of_char ''data''"
    and size: "le_value (take 4 (drop (gpos (scan_file s) + 4) (content (scan_file s)))) = n"
    and bound: "n \<le> 2 ^ 31 - 2"
  shows "scan_step s =
    Inr (Inl (s\<lparr>scan_file := (scan_file s)\<lparr>gpos := gpos (scan_file s) + 8 + nat (n + n mod 2)\<rparr>\<rparr>))"
proof -
  let ?f = "scan_file s"
  let ?ident = "take 4 (drop (gpos ?f) (content ?f))"
  have l: "length ?ident = 4" using avail by simp
  have id1: "le_value ?ident \<noteq> fourcc CHR ''f'' CHR ''m'' CHR ''t'' CHR '' ''"
    using fmt by (simp only: le_value_eq_fourcc [OF l]) simp
  have id2: "le_value ?ident \<noteq> fourcc CHR ''d'' CHR ''a'' CHR ''t'' CHR ''a''"
    using data by (simp only: le_value_eq_fourcc [OF l]) simp
  have n0: "0 \<le> n" using le_value_bounds size by blast
  have i32: "int32 n = n" using n0 bound by (intro int32_eq) simp_all
  have r: "roundToEven n = n + n mod 2" using n0 bound by (rule roundToEven_up)
  have nn: "0 \<le> n + n mod 2" using n0 by simp
  have r1: "read_le 4 ?f = Inr (le_value ?ident, ?f\<lparr>gpos := gpos ?f + 4\<rparr>)"
    using avail by (intro read_le_ok) simp
  have r2: "read_le 4 (?f\<lparr>gpos := gpos ?f + 4\<rparr>) = Inr (n, ?f\<lparr>gpos := gpos ?f + 8\<rparr>)"
    using avail read_le_ok [of "?f\<lparr>gpos := gpos ?f + 4\<rparr>" 4] by (simp add: size del: le_value.simps)
  show ?thesis
    using id1 id2 nn
    by (simp add: scan_step_def r1 r2 and_then_def Let_def i32 r seekg_cur_def nat_add_distrib
        del: le_value.simps)
qed

text \<open>
  A chunk of declared size 5 is skipped as 6 bytes, and the get position is then at the
  identifier of the next chunk.
\<close>

lemma scan_step_skips_chunk_of_size_5:
  "scan_step
     \<lparr>scan_file = \<lparr>content = [0x52, 0x49, 0x46, 0x46, 0x1E, 0, 0, 0, 0x57, 0x41, 0x56, 0x45,
                               0x4C, 0x49, 0x53, 0x54, 0x05, 0, 0, 0, 1, 2, 3, 4, 5, 0,
                               0x64, 0x61, 0x74, 0x61, 0, 0, 0, 0], gpos = 12\<rparr>,
      bytesPerSample = 0, scan_sampleFormat = None, scan_frameRate = None, scan_channelCount = None\<rparr>
   = Inr (Inl
     \<lparr>scan_file = \<lparr>content = [0x52, 0x49, 0x46, 0x46, 0x1E, 0, 0, 0, 0x57, 0x41, 0x56, 0x45,
                               0x4C, 0x49, 0x53, 0x54, 0x05, 0, 0, 0, 1, 2, 3, 4, 5, 0,
                               0x64, 0x61, 0x74, 0x61, 0, 0, 0, 0], gpos = 26\<rparr>,
      bytesPerSample = 0, scan_sampleFormat = None, scan_frameRate = None, scan_channelCount = None\<rparr>) \<and>
   take 4 (drop 26 [0x52, 0x49, 0x46, 0x46, 0x1E, 0, 0, 0, 0x57, 0x41, 0x56, 0x45,
                    0x4C, 0x49, 0x53, 0x54, 0x05, 0, 0, 0, 1, 2, 3, 4, 5, 0,
                    0x64, 0x61, 0x74, 0x61, 0, 0, 0, 0 :: byte]) = map of_char ''data''"
  using scan_step_skips_unknown_chunk
    [of "\<lparr>scan_file = \<lparr>content = [0x52, 0x49, 0x46, 0x46, 0x1E, 0, 0, 0, 0x57, 0x41, 0x56, 0x45,
                               0x4C, 0x49, 0x53, 0x54, 0x05, 0, 0, 0, 1, 2, 3, 4, 5, 0,
                               0x64, 0x61, 0x74, 0x61, 0, 0, 0, 0], gpos = 12\<rparr>,
      bytesPerSample = 0, scan_sampleFormat = None, scan_frameRate = None, scan_channelCount = None\<rparr>" 5]
  by simp

text \<open>
  A state the loop never leaves: a pass that returns the state it started from.
\<close>

lemma scan_chunks_stuck:
  assumes "scan_step s0 = Inr (Inl s0)"
  shows "scan_chunks s0 = None"
proof (rule ccontr)
  assume "scan_chunks s0 \<noteq> None"
  then obtain y where y: "scan_chunks s0 = Some y" by auto
  have "s \<noteq> s0" if "scan_chunks s = Some y" for s y
  proof (rule scan_chunks.raw_induct [where P = "\<lambda>s y. s \<noteq> s0", OF _ that])
    fix scan :: "scan_state \<Rightarrow> (error + WaveFileReader) option" and s y
    assume IH: "\<And>x y. scan x = Some y \<Longrightarrow> x \<noteq> s0"
      and step: "(case scan_step s of Inl e \<Rightarrow> Some (Inl e)
                  | Inr (Inl s') \<Rightarrow> scan s' | Inr (Inr r) \<Rightarrow> Some (Inr r)) = Some y"
    show "s \<noteq> s0"
    proof
      assume "s = s0"
      with step assms have "scan s0 = Some y" by simp
      then have "s0 \<noteq> s0" by (rule IH)
      then show False by simp
    qed
  qed
  with y show False by blast
qed

text \<open>
  C8. A chunk whose identifier is neither \<open>fmt \<close> nor \<open>data\<close> and whose declared size is
  \<open>0xFFFFFFF8\<close> is not skipped. The size is -8 once it is stored in an \<open>int\<close>: the seek
  goes back over the chunk header instead of forward over the chunk, the pass ends in the
  state it started from, with the get position at the identifier of the same chunk, and
  the constructor never returns.
\<close>

theorem scan_step_unknown_chunk_not_skipped:
  "scan_step
     \<lparr>scan_file = \<lparr>content = [0x52, 0x49, 0x46, 0x46, 0x0C, 0, 0, 0, 0x57, 0x41, 0x56, 0x45,
                               0x4C, 0x49, 0x53, 0x54, 0xF8, 0xFF, 0xFF, 0xFF], gpos = 12\<rparr>,
      bytesPerSample = 0, scan_sampleFormat = None, scan_frameRate = None, scan_channelCount = None\<rparr>
   = Inr (Inl
     \<lparr>scan_file = \<lparr>content = [0x52, 0x49, 0x46, 0x46, 0x0C, 0, 0, 0, 0x57, 0x41, 0x56, 0x45,
                               0x4C, 0x49, 0x53, 0x54, 0xF8, 0xFF, 0xFF, 0xFF], gpos = 12\<rparr>,
      bytesPerSample = 0, scan_sampleFormat = None, scan_frameRate = None, scan_channelCount = None\<rparr>) \<and>
   WaveFileReader [0x52, 0x49, 0x46, 0x46, 0x0C, 0, 0, 0, 0x57, 0x41, 0x56, 0x45,
                   0x4C, 0x49, 0x53, 0x54, 0xF8, 0xFF, 0xFF, 0xFF] = None"
proof -
  let ?bytes = "[0x52, 0x49, 0x46, 0x46, 0x0C, 0, 0, 0, 0x57, 0x41, 0x56, 0x45,
                 0x4C, 0x49, 0x53, 0x54, 0xF8, 0xFF, 0xFF, 0xFF] :: byte list"
  let ?s = "\<lparr>scan_file = \<lparr>content = ?bytes, gpos = 12\<rparr>,
      bytesPerSample = 0, scan_sampleFormat = None, scan_frameRate = None, scan_channelCount = None\<rparr>"
  have step: "scan_step ?s = Inr (Inl ?s)"
    by (simp add: scan_step_def read_le_def read_bytes_def and_then_def fourcc_def int32_def
        roundToEven_def seekg_cur_def Let_def)
  have hdr: "read_header \<lparr>content = ?bytes, gpos = 0\<rparr> = Inr \<lparr>content = ?bytes, gpos = 12\<rparr>"
    by (simp add: read_header_def read_le_def read_bytes_def and_then_def fourcc_def)
  have "WaveFileReader ?bytes = None"
    by (simp only: WaveFileReader_def hdr sum.case scan_chunks_stuck [OF step])
  with step show ?thesis by (rule conjI)
qed

section \<open>Counting samples\<close>

subsection \<open>Calls of \<open>getNextSample\<close>\<close>

lemma getNextSample_ok:
  assumes "0 < remainingSamples r" and "remainingSamples r < 2 ^ 31"
    and "gpos (fstream r) + sampleSize (sampleFormat r) \<le> length (content (fstream r))"
  shows "\<exists>x. getNextSample r sample =
     Inr (True,
          r\<lparr>remainingSamples := remainingSamples r - 1,
            fstream := (fstream r)\<lparr>gpos := gpos (fstream r) + sampleSize (sampleFormat r)\<rparr>\<rparr>, x)"
proof -
  have "int32 (remainingSamples r - 1) = remainingSamples r - 1"
    using assms(1,2) by (intro int32_eq) simp_all
  then show ?thesis
    using assms(1,3)
    by (cases "sampleFormat r")
      (simp_all add: getNextSample_def read_le_ok and_then_def Let_def del: le_value.simps)
qed

lemma getNextSample_result:
  assumes "getNextSample r sample = Inr (b, r', sample')"
  shows "b \<longleftrightarrow> remainingSamples r \<noteq> 0"
  using assms
  by (cases "sampleFormat r")
    (auto simp add: getNextSample_def read_le_def read_bytes_def and_then_def Let_def
      split: if_splits)

lemma getNextSample_decrements:
  assumes "getNextSample r sample = Inr (True, r', sample')"
    and "0 \<le> remainingSamples r" and "remainingSamples r < 2 ^ 31"
  shows "remainingSamples r' = remainingSamples r - 1 \<and> 0 \<le> remainingSamples r'"
proof -
  have nz: "remainingSamples r \<noteq> 0" using getNextSample_result [OF assms(1)] by simp
  then have "int32 (remainingSamples r - 1) = remainingSamples r - 1"
    using assms(2,3) by (intro int32_eq) simp_all
  then show ?thesis
    using assms nz
    by (cases "sampleFormat r")
      (auto simp add: getNextSample_def read_le_def read_bytes_def and_then_def Let_def
        split: if_splits)
qed

lemma getNextSamples_drain:
  assumes "remainingSamples r = int n" and "n < 2 ^ 31"
    and "gpos (fstream r) + n * sampleSize (sampleFormat r) \<le> length (content (fstream r))"
  shows "\<exists>results r'. getNextSamples (Suc n) r sample = Inr (results, r') \<and>
           map fst results = replicate n True @ [False] \<and> remainingSamples r' = 0"
  using assms
proof (induction n arbitrary: r sample)
  case 0
  then show ?case by (simp add: getNextSample_def and_then_def)
next
  case (Suc n)
  let ?r1 = "r\<lparr>remainingSamples := remainingSamples r - 1,
            fstream := (fstream r)\<lparr>gpos := gpos (fstream r) + sampleSize (sampleFormat r)\<rparr>\<rparr>"
  have pos: "0 < remainingSamples r" "remainingSamples r < 2 ^ 31" using Suc.prems by simp_all
  have "gpos (fstream r) + sampleSize (sampleFormat r) \<le> length (content (fstream r))"
    using Suc.prems(3) by simp
  from getNextSample_ok [OF pos this]
  obtain x where first: "getNextSample r sample = Inr (True, ?r1, x)" by blast
  have "\<exists>results r'. getNextSamples (Suc n) ?r1 x = Inr (results, r') \<and>
           map fst results = replicate n True @ [False] \<and> remainingSamples r' = 0"
    using Suc.prems by (intro Suc.IH) (simp_all add: algebra_simps)
  then obtain results r' where rest: "getNextSamples (Suc n) ?r1 x = Inr (results, r')"
    "map fst results = replicate n True @ [False]" "remainingSamples r' = 0" by blast
  have "getNextSamples (Suc (Suc n)) r sample = Inr ((True, x) # results, r')"
    by (subst getNextSamples.simps(2))
      (simp add: first rest(1) and_then_def del: getNextSamples.simps)
  with rest show ?case by simp
qed

subsection \<open>What the constructor establishes\<close>

lemma int32_range: "- (2 ^ 31) \<le> int32 x \<and> int32 x < 2 ^ 31"
  using sint_ge [of "word_of_int x :: 32 word"] sint_lt [of "word_of_int x :: 32 word"]
  by (simp add: int32_def)

lemma sdiv_pos_range:
  fixes a b :: int
  assumes "0 < b"
  shows "(0 \<le> a \<longrightarrow> a sdiv b = a div b \<and> 0 \<le> a sdiv b \<and> a sdiv b \<le> a) \<and>
         (a < 0 \<longrightarrow> a \<le> a sdiv b \<and> a sdiv b \<le> 0)"
proof (cases "0 \<le> a")
  case True
  then have "a sdiv b = a div b" using assms by (simp add: signed_divide_int_def sgn_if)
  moreover have "0 \<le> a div b" using True assms by (simp add: pos_imp_zdiv_nonneg_iff)
  moreover have "a div b \<le> a" using True assms zdiv_mono2 [of a 1 b] by simp
  ultimately show ?thesis using True by simp
next
  case False
  then have e: "a sdiv b = - (- a div b)" using assms by (simp add: signed_divide_int_def sgn_if)
  have "0 \<le> - a div b" using False assms by (simp add: pos_imp_zdiv_nonneg_iff)
  moreover have "- a div b \<le> - a" using False assms zdiv_mono2 [of "- a" 1 b] by simp
  ultimately show ?thesis using False e by simp
qed

lemma read_le_nonneg: "read_le n f = Inr (v, f') \<Longrightarrow> 0 \<le> v"
  using le_value_bounds
  by (auto simp add: read_le_def read_bytes_def and_then_def split: if_splits)

lemma determineSampleFormat_bytes:
  assumes "determineSampleFormat codec bitsPerSample frameSize channels = Inr (fmt, bps)"
  shows "bps = int (sampleSize fmt)"
  using assms
  by (auto simp add: determineSampleFormat_def and_then_def split: if_splits)

lemma and_then_Inr:
  "and_then m k = Inr y \<longleftrightarrow> (\<exists>x. m = Inr x \<and> k x = Inr y)"
  by (cases m) (simp_all add: and_then_def)

lemma sampleSize_pos: "0 < sampleSize fmt"
  by (cases fmt) simp_all

lemma determineSampleFormat_pos:
  "determineSampleFormat codec bitsPerSample frameSize channels = Inr (fmt, bps) \<Longrightarrow> 0 < bps"
  using sampleSize_pos [of fmt] by (auto dest: determineSampleFormat_bytes)

lemma fmt_chunk_state:
  assumes "fmt_chunk chunkSize s = Inr s'"
  shows "0 < bytesPerSample s' \<and> (\<exists>c. scan_channelCount s' = Some c \<and> 0 \<le> c)"
  using assms
  by (auto simp add: fmt_chunk_def and_then_Inr dest: read_le_nonneg determineSampleFormat_pos)

lemma data_chunk_reader:
  assumes "data_chunk chunkSize s = Inr r"
    and "0 \<le> bytesPerSample s"
    and "\<And>c. scan_channelCount s = Some c \<Longrightarrow> 0 \<le> c"
  shows "0 < bytesPerSample s \<and> remainingSamples r = chunkSize sdiv bytesPerSample s \<and>
         0 < channelCount r \<and> frameCount r = remainingSamples r sdiv channelCount r"
proof -
  from assms(1) have nz: "bytesPerSample s \<noteq> 0"
    by (auto simp add: data_chunk_def split: if_splits)
  from assms(1) nz obtain c fmt rate where
    c: "scan_channelCount s = Some c" "c \<noteq> 0"
    and r: "r = \<lparr>fstream = scan_file s, sampleFormat = fmt, frameRate = rate,
                 frameCount = (chunkSize sdiv bytesPerSample s) sdiv c, channelCount = c,
                 remainingSamples = chunkSize sdiv bytesPerSample s\<rparr>"
    by (auto simp add: data_chunk_def Let_def split: option.splits if_splits)
  have "0 \<le> c" using c(1) by (rule assms(3))
  with c(2) have "0 < c" by simp
  with nz assms(2) show ?thesis by (simp add: r)
qed

lemma scan_step_continue:
  assumes "scan_step s = Inr (Inl s')"
    and "0 \<le> bytesPerSample s \<and> (\<forall>c. scan_channelCount s = Some c \<longrightarrow> 0 \<le> c)"
  shows "0 \<le> bytesPerSample s' \<and> (\<forall>c. scan_channelCount s' = Some c \<longrightarrow> 0 \<le> c)"
  using assms
  by (auto simp add: scan_step_def and_then_Inr Let_def split: if_splits
      dest!: fmt_chunk_state)

lemma scan_step_done:
  assumes "scan_step s = Inr (Inr r)"
    and "0 \<le> bytesPerSample s \<and> (\<forall>c. scan_channelCount s = Some c \<longrightarrow> 0 \<le> c)"
  shows "0 < channelCount r \<and> frameCount r = remainingSamples r sdiv channelCount r \<and>
         - (2 ^ 31) \<le> remainingSamples r \<and> remainingSamples r < 2 ^ 31"
proof -
  from assms(1) obtain size f2 where
    d: "data_chunk (int32 size) (s\<lparr>scan_file := f2\<rparr>) = Inr r"
    by (auto simp add: scan_step_def and_then_Inr Let_def split: if_splits)
  have r: "0 < bytesPerSample s \<and> remainingSamples r = int32 size sdiv bytesPerSample s \<and>
         0 < channelCount r \<and> frameCount r = remainingSamples r sdiv channelCount r"
    using data_chunk_reader [OF d] assms(2) by simp
  then have "- (2 ^ 31) \<le> remainingSamples r \<and> remainingSamples r < 2 ^ 31"
    using int32_range [of size] sdiv_pos_range [of "bytesPerSample s" "int32 size"]
    by (cases "0 \<le> int32 size") auto
  with r show ?thesis by simp
qed

lemma scan_chunks_reader:
  assumes "scan_chunks s = Some (Inr r)"
    and "0 \<le> bytesPerSample s \<and> (\<forall>c. scan_channelCount s = Some c \<longrightarrow> 0 \<le> c)"
  shows "0 < channelCount r \<and> frameCount r = remainingSamples r sdiv channelCount r \<and>
         - (2 ^ 31) \<le> remainingSamples r \<and> remainingSamples r < 2 ^ 31"
proof -
  have "(0 \<le> bytesPerSample s \<and> (\<forall>c. scan_channelCount s = Some c \<longrightarrow> 0 \<le> c)) \<longrightarrow>
        (\<forall>r. y = Inr r \<longrightarrow>
           0 < channelCount r \<and> frameCount r = remainingSamples r sdiv channelCount r \<and>
           - (2 ^ 31) \<le> remainingSamples r \<and> remainingSamples r < 2 ^ 31)"
    if "scan_chunks s = Some y" for s y
    using that
  proof (rule scan_chunks.raw_induct [rotated])
    fix scan :: "scan_state \<Rightarrow> (error + WaveFileReader) option" and s y
    assume IH: "\<And>s y. scan s = Some y \<Longrightarrow>
        (0 \<le> bytesPerSample s \<and> (\<forall>c. scan_channelCount s = Some c \<longrightarrow> 0 \<le> c)) \<longrightarrow>
        (\<forall>r. y = Inr r \<longrightarrow>
           0 < channelCount r \<and> frameCount r = remainingSamples r sdiv channelCount r \<and>
           - (2 ^ 31) \<le> remainingSamples r \<and> remainingSamples r < 2 ^ 31)"
      and step: "(case scan_step s of Inl e \<Rightarrow> Some (Inl e)
                  | Inr (Inl s') \<Rightarrow> scan s' | Inr (Inr r) \<Rightarrow> Some (Inr r)) = Some y"
    show "(0 \<le> bytesPerSample s \<and> (\<forall>c. scan_channelCount s = Some c \<longrightarrow> 0 \<le> c)) \<longrightarrow>
        (\<forall>r. y = Inr r \<longrightarrow>
           0 < channelCount r \<and> frameCount r = remainingSamples r sdiv channelCount r \<and>
           - (2 ^ 31) \<le> remainingSamples r \<and> remainingSamples r < 2 ^ 31)"
    proof (cases "scan_step s")
      case (Inl e)
      with step show ?thesis by auto
    next
      case (Inr t)
      show ?thesis
      proof (cases t)
        case (Inl s')
        with Inr step have "scan s' = Some y" by simp
        from IH [OF this] scan_step_continue [of s s'] Inr Inl show ?thesis by blast
      next
        case r: (Inr r')
        with Inr step have "y = Inr r'" by simp
        with scan_step_done [of s r'] Inr r show ?thesis by blast
      qed
    qed
  qed
  with assms show ?thesis by blast
qed

lemma WaveFileReader_reader:
  assumes "WaveFileReader bytes = Some (Inr r)"
  shows "0 < channelCount r \<and> frameCount r = remainingSamples r sdiv channelCount r \<and>
         - (2 ^ 31) \<le> remainingSamples r \<and> remainingSamples r < 2 ^ 31"
proof -
  from assms obtain f where
    "scan_chunks \<lparr>scan_file = f, bytesPerSample = 0, scan_sampleFormat = None,
                  scan_frameRate = None, scan_channelCount = None\<rparr> = Some (Inr r)"
    by (auto simp add: WaveFileReader_def split: sum.splits)
  then show ?thesis by (rule scan_chunks_reader) simp
qed

lemma getNextSample_no_more:
  assumes "getNextSample q sample = Inr (False, q', sample')"
  shows "q' = q \<and> sample' = sample"
  using assms
  by (cases "sampleFormat q")
    (auto simp add: getNextSample_def and_then_Inr Let_def split: if_splits)

lemma getNextSample_call:
  assumes "getNextSample q sample = Inr (b, q', sample')"
    and "0 \<le> remainingSamples q" and "remainingSamples q < 2 ^ 31"
  shows "(b \<longleftrightarrow> remainingSamples q \<noteq> 0) \<and>
         remainingSamples q' = (if b then remainingSamples q - 1 else remainingSamples q) \<and>
         0 \<le> remainingSamples q'"
proof (cases b)
  case True
  with assms getNextSample_decrements [of q sample q' sample'] getNextSample_result [OF assms(1)]
  show ?thesis by simp
next
  case False
  with assms getNextSample_no_more [of q sample q' sample'] getNextSample_result [OF assms(1)]
  show ?thesis by simp
qed

lemma truncated_quotient:
  fixes x c :: int
  assumes "0 \<le> x" and "0 < c"
  shows "(x sdiv c) * c \<le> x \<and> x < (x sdiv c + 1) * c \<and> ((x sdiv c) * c = x \<longleftrightarrow> c dvd x)"
proof -
  define q m where "q = x div c" and "m = x mod c"
  have e: "x sdiv c = q" using sdiv_pos_range [OF assms(2), of x] assms(1) by (simp add: q_def)
  have x: "x = q * c + m" by (simp add: q_def m_def)
  have m: "0 \<le> m" "m < c" using assms(2) by (simp_all add: m_def)
  have d: "c dvd x \<longleftrightarrow> m = 0" by (simp add: m_def dvd_eq_mod_eq_0)
  have "q * c \<le> x" using x m by linarith
  moreover have "(q + 1) * c = q * c + c" by (simp add: algebra_simps)
  then have "x < (q + 1) * c" using x m by linarith
  moreover have "q * c = x \<longleftrightarrow> c dvd x" using x d by auto
  ultimately show ?thesis by (simp only: e)
qed

text \<open>
  C4, as amended. For every reader the constructor returns, the channel count is positive
  and the frame count is \<open>remainingSamples\<close> divided by the channel count, truncated. When
  \<open>remainingSamples\<close> is not negative (the data chunk is smaller than \<open>2 ^ 31\<close> bytes), the
  frame count times the channel count is at most \<open>remainingSamples\<close> and misses it by less
  than one frame; the two are equal exactly when the channel count divides
  \<open>remainingSamples\<close>. When moreover the stream holds the bytes of \<open>remainingSamples\<close>
  samples, that many calls of \<open>getNextSample\<close> return true and the next call is the first to
  return false, with \<open>remainingSamples\<close> at zero. A call of \<open>getNextSample\<close> on any reader
  returns false exactly when the count is zero, whatever the count is; on a reader with a
  count from 0 to \<open>2 ^ 31 - 1\<close> it takes exactly one off the count when it returns true and
  leaves the count non-negative.
\<close>

theorem WaveFileReader_sample_count:
  assumes "WaveFileReader bytes = Some (Inr r)"
  shows "0 < getChannelCount r \<and>
     getFrameCount r = remainingSamples r sdiv getChannelCount r \<and>
     (0 \<le> remainingSamples r \<longrightarrow>
        getFrameCount r * getChannelCount r \<le> remainingSamples r \<and>
        remainingSamples r < (getFrameCount r + 1) * getChannelCount r \<and>
        (getFrameCount r * getChannelCount r = remainingSamples r \<longleftrightarrow>
           getChannelCount r dvd remainingSamples r) \<and>
        (gpos (fstream r) + nat (remainingSamples r) * sampleSize (sampleFormat r)
           \<le> length (content (fstream r)) \<longrightarrow>
         (\<forall>sample. \<exists>results r'.
            getNextSamples (Suc (nat (remainingSamples r))) r sample = Inr (results, r') \<and>
            map fst results = replicate (nat (remainingSamples r)) True @ [False] \<and>
            remainingSamples r' = 0))) \<and>
     (\<forall>q sample b q' sample'.
        getNextSample q sample = Inr (b, q', sample') \<longrightarrow>
          (b \<longleftrightarrow> remainingSamples q \<noteq> 0) \<and>
          (0 \<le> remainingSamples q \<and> remainingSamples q < 2 ^ 31 \<longrightarrow>
             remainingSamples q' = (if b then remainingSamples q - 1 else remainingSamples q) \<and>
             0 \<le> remainingSamples q'))"
proof -
  have inv: "0 < channelCount r" "frameCount r = remainingSamples r sdiv channelCount r"
    "remainingSamples r < 2 ^ 31"
    using WaveFileReader_reader [OF assms] by simp_all
  have counts: "frameCount r * channelCount r \<le> remainingSamples r \<and>
        remainingSamples r < (frameCount r + 1) * channelCount r \<and>
        (frameCount r * channelCount r = remainingSamples r \<longleftrightarrow> channelCount r dvd remainingSamples r)"
    if "0 \<le> remainingSamples r"
    using truncated_quotient [OF that inv(1)] by (simp only: inv(2))
  have drain: "\<exists>results r'.
            getNextSamples (Suc (nat (remainingSamples r))) r sample = Inr (results, r') \<and>
            map fst results = replicate (nat (remainingSamples r)) True @ [False] \<and>
            remainingSamples r' = 0"
    if "0 \<le> remainingSamples r"
      and "gpos (fstream r) + nat (remainingSamples r) * sampleSize (sampleFormat r)
           \<le> length (content (fstream r))" for sample
  proof (rule getNextSamples_drain)
    show "remainingSamples r = int (nat (remainingSamples r))" using that(1) by simp
    show "nat (remainingSamples r) < 2 ^ 31" using that(1) inv(3) by (simp add: nat_less_iff)
    show "gpos (fstream r) + nat (remainingSamples r) * sampleSize (sampleFormat r)
           \<le> length (content (fstream r))" by (rule that(2))
  qed
  show ?thesis
    unfolding getChannelCount_def getFrameCount_def
  proof (intro conjI)
    show "0 < channelCount r" by (rule inv(1))
    show "frameCount r = remainingSamples r sdiv channelCount r" by (rule inv(2))
    show "0 \<le> remainingSamples r \<longrightarrow>
        frameCount r * channelCount r \<le> remainingSamples r \<and>
        remainingSamples r < (frameCount r + 1) * channelCount r \<and>
        (frameCount r * channelCount r = remainingSamples r \<longleftrightarrow>
           channelCount r dvd remainingSamples r) \<and>
        (gpos (fstream r) + nat (remainingSamples r) * sampleSize (sampleFormat r)
           \<le> length (content (fstream r)) \<longrightarrow>
         (\<forall>sample. \<exists>results r'.
            getNextSamples (Suc (nat (remainingSamples r))) r sample = Inr (results, r') \<and>
            map fst results = replicate (nat (remainingSamples r)) True @ [False] \<and>
            remainingSamples r' = 0))"
    proof
      assume nonneg: "0 \<le> remainingSamples r"
      from counts [OF nonneg] drain [OF nonneg]
      show "frameCount r * channelCount r \<le> remainingSamples r \<and>
        remainingSamples r < (frameCount r + 1) * channelCount r \<and>
        (frameCount r * channelCount r = remainingSamples r \<longleftrightarrow>
           channelCount r dvd remainingSamples r) \<and>
        (gpos (fstream r) + nat (remainingSamples r) * sampleSize (sampleFormat r)
           \<le> length (content (fstream r)) \<longrightarrow>
         (\<forall>sample. \<exists>results r'.
            getNextSamples (Suc (nat (remainingSamples r))) r sample = Inr (results, r') \<and>
            map fst results = replicate (nat (remainingSamples r)) True @ [False] \<and>
            remainingSamples r' = 0))"
        by (intro conjI impI allI) simp_all
    qed
    show "\<forall>q sample b q' sample'.
        getNextSample q sample = Inr (b, q', sample') \<longrightarrow>
          (b \<longleftrightarrow> remainingSamples q \<noteq> 0) \<and>
          (0 \<le> remainingSamples q \<and> remainingSamples q < 2 ^ 31 \<longrightarrow>
             remainingSamples q' = (if b then remainingSamples q - 1 else remainingSamples q) \<and>
             0 \<le> remainingSamples q')"
    proof (intro allI impI conjI)
      fix q sample b q' sample'
      assume call: "getNextSample q sample = Inr (b, q', sample')"
      show "b \<longleftrightarrow> remainingSamples q \<noteq> 0" by (rule getNextSample_result [OF call])
      assume range: "0 \<le> remainingSamples q \<and> remainingSamples q < 2 ^ 31"
      show "remainingSamples q' = (if b then remainingSamples q - 1 else remainingSamples q)"
        using getNextSample_call [OF call] range by blast
      show "0 \<le> remainingSamples q'"
        using getNextSample_call [OF call] range by blast
    qed
  qed
qed

lemma getNextSamples_4:
  "getNextSamples 4 r sample = getNextSamples (Suc (Suc (Suc (Suc 0)))) r sample"
  by (simp add: numeral_eq_Suc del: getNextSamples.simps)

lemma toNormalizedFloat_128:
  "toNormalizedFloat 128 0 255 = 0x3B808100 \<and> float_value 0x3B808100 = 32897 / 8388608"
  by code_simp

text \<open>
  The theorem at an 8-bit mono container with the data bytes \<open>00 FF 80\<close>: three frames,
  three samples, and four calls that yield -1, 1, \<open>32897 / 8388608\<close> (about 0.0039) and then
  false.
\<close>

theorem WaveFileReader_sample_count_witness:
  "WaveFileReader
    [0x52, 0x49, 0x46, 0x46, 0x27, 0x00, 0x00, 0x00, 0x57, 0x41, 0x56, 0x45,
     0x66, 0x6D, 0x74, 0x20, 0x10, 0x00, 0x00, 0x00, 0x01, 0x00, 0x01, 0x00,
     0x40, 0x1F, 0x00, 0x00, 0x40, 0x1F, 0x00, 0x00, 0x01, 0x00, 0x08, 0x00,
     0x64, 0x61, 0x74, 0x61, 0x03, 0x00, 0x00, 0x00, 0x00, 0xFF, 0x80] =
    Some (Inr
      \<lparr>fstream = \<lparr>content = [0x52, 0x49, 0x46, 0x46, 0x27, 0x00, 0x00, 0x00, 0x57, 0x41, 0x56, 0x45,
                              0x66, 0x6D, 0x74, 0x20, 0x10, 0x00, 0x00, 0x00, 0x01, 0x00, 0x01, 0x00,
                              0x40, 0x1F, 0x00, 0x00, 0x40, 0x1F, 0x00, 0x00, 0x01, 0x00, 0x08, 0x00,
                              0x64, 0x61, 0x74, 0x61, 0x03, 0x00, 0x00, 0x00, 0x00, 0xFF, 0x80],
                  gpos = 44\<rparr>,
        sampleFormat = UInt8, frameRate = 8000, frameCount = 3, channelCount = 1,
        remainingSamples = 3\<rparr>) \<and>
   getFrameCount
      \<lparr>fstream = \<lparr>content = [0x52, 0x49, 0x46, 0x46, 0x27, 0x00, 0x00, 0x00, 0x57, 0x41, 0x56, 0x45,
                              0x66, 0x6D, 0x74, 0x20, 0x10, 0x00, 0x00, 0x00, 0x01, 0x00, 0x01, 0x00,
                              0x40, 0x1F, 0x00, 0x00, 0x40, 0x1F, 0x00, 0x00, 0x01, 0x00, 0x08, 0x00,
                              0x64, 0x61, 0x74, 0x61, 0x03, 0x00, 0x00, 0x00, 0x00, 0xFF, 0x80],
                  gpos = 44\<rparr>,
        sampleFormat = UInt8, frameRate = 8000, frameCount = 3, channelCount = 1,
        remainingSamples = 3\<rparr> *
   getChannelCount
      \<lparr>fstream = \<lparr>content = [0x52, 0x49, 0x46, 0x46, 0x27, 0x00, 0x00, 0x00, 0x57, 0x41, 0x56, 0x45,
                              0x66, 0x6D, 0x74, 0x20, 0x10, 0x00, 0x00, 0x00, 0x01, 0x00, 0x01, 0x00,
                              0x40, 0x1F, 0x00, 0x00, 0x40, 0x1F, 0x00, 0x00, 0x01, 0x00, 0x08, 0x00,
                              0x64, 0x61, 0x74, 0x61, 0x03, 0x00, 0x00, 0x00, 0x00, 0xFF, 0x80],
                  gpos = 44\<rparr>,
        sampleFormat = UInt8, frameRate = 8000, frameCount = 3, channelCount = 1,
        remainingSamples = 3\<rparr> = 3 \<and>
   getNextSamples 4
      \<lparr>fstream = \<lparr>content = [0x52, 0x49, 0x46, 0x46, 0x27, 0x00, 0x00, 0x00, 0x57, 0x41, 0x56, 0x45,
                              0x66, 0x6D, 0x74, 0x20, 0x10, 0x00, 0x00, 0x00, 0x01, 0x00, 0x01, 0x00,
                              0x40, 0x1F, 0x00, 0x00, 0x40, 0x1F, 0x00, 0x00, 0x01, 0x00, 0x08, 0x00,
                              0x64, 0x61, 0x74, 0x61, 0x03, 0x00, 0x00, 0x00, 0x00, 0xFF, 0x80],
                  gpos = 44\<rparr>,
        sampleFormat = UInt8, frameRate = 8000, frameCount = 3, channelCount = 1,
        remainingSamples = 3\<rparr> 0 =
    Inr ([(True, 0xBF800000), (True, 0x3F800000), (True, 0x3B808100), (False, 0x3B808100)],
      \<lparr>fstream = \<lparr>content = [0x52, 0x49, 0x46, 0x46, 0x27, 0x00, 0x00, 0x00, 0x57, 0x41, 0x56, 0x45,
                              0x66, 0x6D, 0x74, 0x20, 0x10, 0x00, 0x00, 0x00, 0x01, 0x00, 0x01, 0x00,
                              0x40, 0x1F, 0x00, 0x00, 0x40, 0x1F, 0x00, 0x00, 0x01, 0x00, 0x08, 0x00,
                              0x64, 0x61, 0x74, 0x61, 0x03, 0x00, 0x00, 0x00, 0x00, 0xFF, 0x80],
                  gpos = 47\<rparr>,
        sampleFormat = UInt8, frameRate = 8000, frameCount = 3, channelCount = 1,
        remainingSamples = 0\<rparr>)"
proof -
  have c: "WaveFileReader
    [0x52, 0x49, 0x46, 0x46, 0x27, 0x00, 0x00, 0x00, 0x57, 0x41, 0x56, 0x45,
     0x66, 0x6D, 0x74, 0x20, 0x10, 0x00, 0x00, 0x00, 0x01, 0x00, 0x01, 0x00,
     0x40, 0x1F, 0x00, 0x00, 0x40, 0x1F, 0x00, 0x00, 0x01, 0x00, 0x08, 0x00,
     0x64, 0x61, 0x74, 0x61, 0x03, 0x00, 0x00, 0x00, 0x00, 0xFF, 0x80] =
    Some (Inr
      \<lparr>fstream = \<lparr>content = [0x52, 0x49, 0x46, 0x46, 0x27, 0x00, 0x00, 0x00, 0x57, 0x41, 0x56, 0x45,
                              0x66, 0x6D, 0x74, 0x20, 0x10, 0x00, 0x00, 0x00, 0x01, 0x00, 0x01, 0x00,
                              0x40, 0x1F, 0x00, 0x00, 0x40, 0x1F, 0x00, 0x00, 0x01, 0x00, 0x08, 0x00,
                              0x64, 0x61, 0x74, 0x61, 0x03, 0x00, 0x00, 0x00, 0x00, 0xFF, 0x80],
                  gpos = 44\<rparr>,
        sampleFormat = UInt8, frameRate = 8000, frameCount = 3, channelCount = 1,
        remainingSamples = 3\<rparr>)"
    by (simp add: WaveFileReader_def read_header_def read_le_def read_bytes_def and_then_def fourcc_def
      scan_chunks.simps scan_step_def fmt_chunk_def data_chunk_def determineSampleFormat_def
      seekg_cur_def int32_def roundToEven_def Let_def)
  have n: "getNextSamples 4
      \<lparr>fstream = \<lparr>content = [0x52, 0x49, 0x46, 0x46, 0x27, 0x00, 0x00, 0x00, 0x57, 0x41, 0x56, 0x45,
                              0x66, 0x6D, 0x74, 0x20, 0x10, 0x00, 0x00, 0x00, 0x01, 0x00, 0x01, 0x00,
                              0x40, 0x1F, 0x00, 0x00, 0x40, 0x1F, 0x00, 0x00, 0x01, 0x00, 0x08, 0x00,
                              0x64, 0x61, 0x74, 0x61, 0x03, 0x00, 0x00, 0x00, 0x00, 0xFF, 0x80],
                  gpos = 44\<rparr>,
        sampleFormat = UInt8, frameRate = 8000, frameCount = 3, channelCount = 1,
        remainingSamples = 3\<rparr> 0 =
    Inr ([(True, 0xBF800000), (True, 0x3F800000), (True, 0x3B808100), (False, 0x3B808100)],
      \<lparr>fstream = \<lparr>content = [0x52, 0x49, 0x46, 0x46, 0x27, 0x00, 0x00, 0x00, 0x57, 0x41, 0x56, 0x45,
                              0x66, 0x6D, 0x74, 0x20, 0x10, 0x00, 0x00, 0x00, 0x01, 0x00, 0x01, 0x00,
                              0x40, 0x1F, 0x00, 0x00, 0x40, 0x1F, 0x00, 0x00, 0x01, 0x00, 0x08, 0x00,
                              0x64, 0x61, 0x74, 0x61, 0x03, 0x00, 0x00, 0x00, 0x00, 0xFF, 0x80],
                  gpos = 47\<rparr>,
        sampleFormat = UInt8, frameRate = 8000, frameCount = 3, channelCount = 1,
        remainingSamples = 0\<rparr>)"
    by (simp add: getNextSamples_4 getNextSample_def read_le_def read_bytes_def and_then_def int32_def
        UINT8_MAX_def toNormalizedFloat_u8 toNormalizedFloat_128)
  from WaveFileReader_sample_count [OF c] c n show ?thesis
    by (simp add: getFrameCount_def getChannelCount_def)
qed

text \<open>
  The same data bytes in an 8-bit container with two channels: the constructor returns a
  reader with one frame, two channels and three remaining samples, and three calls return
  true before the first that returns false.
\<close>

theorem WaveFileReader_sample_count_counterexample:
  "WaveFileReader
    [0x52, 0x49, 0x46, 0x46, 0x27, 0x00, 0x00, 0x00, 0x57, 0x41, 0x56, 0x45,
     0x66, 0x6D, 0x74, 0x20, 0x10, 0x00, 0x00, 0x00, 0x01, 0x00, 0x02, 0x00,
     0x40, 0x1F, 0x00, 0x00, 0x80, 0x3E, 0x00, 0x00, 0x02, 0x00, 0x08, 0x00,
     0x64, 0x61, 0x74, 0x61, 0x03, 0x00, 0x00, 0x00, 0x00, 0xFF, 0x80] =
    Some (Inr
      \<lparr>fstream = \<lparr>content = [0x52, 0x49, 0x46, 0x46, 0x27, 0x00, 0x00, 0x00, 0x57, 0x41, 0x56, 0x45,
                              0x66, 0x6D, 0x74, 0x20, 0x10, 0x00, 0x00, 0x00, 0x01, 0x00, 0x02, 0x00,
                              0x40, 0x1F, 0x00, 0x00, 0x80, 0x3E, 0x00, 0x00, 0x02, 0x00, 0x08, 0x00,
                              0x64, 0x61, 0x74, 0x61, 0x03, 0x00, 0x00, 0x00, 0x00, 0xFF, 0x80],
                  gpos = 44\<rparr>,
        sampleFormat = UInt8, frameRate = 8000, frameCount = 1, channelCount = 2,
        remainingSamples = 3\<rparr>) \<and>
   getFrameCount
      \<lparr>fstream = \<lparr>content = [0x52, 0x49, 0x46, 0x46, 0x27, 0x00, 0x00, 0x00, 0x57, 0x41, 0x56, 0x45,
                              0x66, 0x6D, 0x74, 0x20, 0x10, 0x00, 0x00, 0x00, 0x01, 0x00, 0x02, 0x00,
                              0x40, 0x1F, 0x00, 0x00, 0x80, 0x3E, 0x00, 0x00, 0x02, 0x00, 0x08, 0x00,
                              0x64, 0x61, 0x74, 0x61, 0x03, 0x00, 0x00, 0x00, 0x00, 0xFF, 0x80],
                  gpos = 44\<rparr>,
        sampleFormat = UInt8, frameRate = 8000, frameCount = 1, channelCount = 2,
        remainingSamples = 3\<rparr> *
   getChannelCount
      \<lparr>fstream = \<lparr>content = [0x52, 0x49, 0x46, 0x46, 0x27, 0x00, 0x00, 0x00, 0x57, 0x41, 0x56, 0x45,
                              0x66, 0x6D, 0x74, 0x20, 0x10, 0x00, 0x00, 0x00, 0x01, 0x00, 0x02, 0x00,
                              0x40, 0x1F, 0x00, 0x00, 0x80, 0x3E, 0x00, 0x00, 0x02, 0x00, 0x08, 0x00,
                              0x64, 0x61, 0x74, 0x61, 0x03, 0x00, 0x00, 0x00, 0x00, 0xFF, 0x80],
                  gpos = 44\<rparr>,
        sampleFormat = UInt8, frameRate = 8000, frameCount = 1, channelCount = 2,
        remainingSamples = 3\<rparr> = 2 \<and>
   getNextSamples 4
      \<lparr>fstream = \<lparr>content = [0x52, 0x49, 0x46, 0x46, 0x27, 0x00, 0x00, 0x00, 0x57, 0x41, 0x56, 0x45,
                              0x66, 0x6D, 0x74, 0x20, 0x10, 0x00, 0x00, 0x00, 0x01, 0x00, 0x02, 0x00,
                              0x40, 0x1F, 0x00, 0x00, 0x80, 0x3E, 0x00, 0x00, 0x02, 0x00, 0x08, 0x00,
                              0x64, 0x61, 0x74, 0x61, 0x03, 0x00, 0x00, 0x00, 0x00, 0xFF, 0x80],
                  gpos = 44\<rparr>,
        sampleFormat = UInt8, frameRate = 8000, frameCount = 1, channelCount = 2,
        remainingSamples = 3\<rparr> 0 =
    Inr ([(True, 0xBF800000), (True, 0x3F800000), (True, 0x3B808100), (False, 0x3B808100)],
      \<lparr>fstream = \<lparr>content = [0x52, 0x49, 0x46, 0x46, 0x27, 0x00, 0x00, 0x00, 0x57, 0x41, 0x56, 0x45,
                              0x66, 0x6D, 0x74, 0x20, 0x10, 0x00, 0x00, 0x00, 0x01, 0x00, 0x02, 0x00,
                              0x40, 0x1F, 0x00, 0x00, 0x80, 0x3E, 0x00, 0x00, 0x02, 0x00, 0x08, 0x00,
                              0x64, 0x61, 0x74, 0x61, 0x03, 0x00, 0x00, 0x00, 0x00, 0xFF, 0x80],
                  gpos = 47\<rparr>,
        sampleFormat = UInt8, frameRate = 8000, frameCount = 1, channelCount = 2,
        remainingSamples = 0\<rparr>)"
  by (simp add: WaveFileReader_def read_header_def read_le_def read_bytes_def and_then_def fourcc_def
      scan_chunks.simps scan_step_def fmt_chunk_def data_chunk_def determineSampleFormat_def
      seekg_cur_def int32_def roundToEven_def Let_def
      getFrameCount_def getChannelCount_def
      getNextSamples_4 getNextSample_def UINT8_MAX_def toNormalizedFloat_u8 toNormalizedFloat_128)

text \<open>
  A data chunk of declared size \<open>0xFFFFFFFF\<close> is -1 as an \<open>int\<close>: the reader starts with a
  negative count.
\<close>

lemma WaveFileReader_negative_count:
  "WaveFileReader
    [0x52, 0x49, 0x46, 0x46, 0x25, 0x00, 0x00, 0x00, 0x57, 0x41, 0x56, 0x45,
     0x66, 0x6D, 0x74, 0x20, 0x10, 0x00, 0x00, 0x00, 0x01, 0x00, 0x01, 0x00,
     0x40, 0x1F, 0x00, 0x00, 0x40, 0x1F, 0x00, 0x00, 0x01, 0x00, 0x08, 0x00,
     0x64, 0x61, 0x74, 0x61, 0xFF, 0xFF, 0xFF, 0xFF, 0x00] =
    Some (Inr
      \<lparr>fstream = \<lparr>content = [0x52, 0x49, 0x46, 0x46, 0x25, 0x00, 0x00, 0x00, 0x57, 0x41, 0x56, 0x45,
                              0x66, 0x6D, 0x74, 0x20, 0x10, 0x00, 0x00, 0x00, 0x01, 0x00, 0x01, 0x00,
                              0x40, 0x1F, 0x00, 0x00, 0x40, 0x1F, 0x00, 0x00, 0x01, 0x00, 0x08, 0x00,
                              0x64, 0x61, 0x74, 0x61, 0xFF, 0xFF, 0xFF, 0xFF, 0x00],
                  gpos = 44\<rparr>,
        sampleFormat = UInt8, frameRate = 8000, frameCount = - 1, channelCount = 1,
        remainingSamples = - 1\<rparr>)"
  by (simp add: WaveFileReader_def read_header_def read_le_def read_bytes_def and_then_def fourcc_def
      scan_chunks.simps scan_step_def fmt_chunk_def data_chunk_def determineSampleFormat_def
      seekg_cur_def int32_def roundToEven_def Let_def)

section \<open>The format chunk\<close>

lemma determineSampleFormat_PCM_accepted:
  assumes "determineSampleFormat 1 bitsPerSample frameSize channels = Inr (fmt, bps)"
  shows "bitsPerSample \<le> 24 \<and>
         (fmt, bps) = (if bitsPerSample = 8 then (UInt8, 1)
                       else if bitsPerSample \<le> 16 then (Int16, 2) else (Int24, 3)) \<and>
         channels \<noteq> 0 \<and> bps = frameSize div channels"
  using assms by (auto simp add: determineSampleFormat_def and_then_def split: if_splits)

lemma determineSampleFormat_PCM_too_deep:
  "24 < bitsPerSample \<Longrightarrow>
   determineSampleFormat 1 bitsPerSample frameSize channels =
     Inl (FormatError (UnsupportedIntegerSamples bitsPerSample))"
  by (simp add: determineSampleFormat_def and_then_def)

lemma determineSampleFormat_Float:
  "determineSampleFormat 3 bitsPerSample frameSize channels =
     (if bitsPerSample = 32 then Inr (Float32, 4)
      else Inl (FormatError (UnsupportedFloatSamples bitsPerSample)))"
  by (simp add: determineSampleFormat_def)

text \<open>
  C1. At a PCM format chunk with 4 bits per sample the reader does not choose UInt8 with
  one byte per sample: only a depth of exactly 8 gives UInt8, and 4 falls into the branch
  for Int16 with two bytes. With one channel and a frame size of 1 the constructor then
  fails for the sample organization; with a frame size of 2 it returns an Int16 reader.
\<close>

theorem determineSampleFormat_4_bits:
  "determineSampleFormat 1 4 1 1 = Inl (FormatError UnsupportedSampleOrganization) \<and>
   determineSampleFormat 1 4 2 1 = Inr (Int16, 2) \<and>
   WaveFileReader
    [0x52, 0x49, 0x46, 0x46, 0x26, 0x00, 0x00, 0x00, 0x57, 0x41, 0x56, 0x45,
     0x66, 0x6D, 0x74, 0x20, 0x10, 0x00, 0x00, 0x00, 0x01, 0x00, 0x01, 0x00,
     0x40, 0x1F, 0x00, 0x00, 0x40, 0x1F, 0x00, 0x00, 0x01, 0x00, 0x04, 0x00,
     0x64, 0x61, 0x74, 0x61, 0x02, 0x00, 0x00, 0x00, 0x12, 0x34] =
    Some (Inl (FormatError UnsupportedSampleOrganization)) \<and>
   WaveFileReader
    [0x52, 0x49, 0x46, 0x46, 0x26, 0x00, 0x00, 0x00, 0x57, 0x41, 0x56, 0x45,
     0x66, 0x6D, 0x74, 0x20, 0x10, 0x00, 0x00, 0x00, 0x01, 0x00, 0x01, 0x00,
     0x40, 0x1F, 0x00, 0x00, 0x80, 0x3E, 0x00, 0x00, 0x02, 0x00, 0x04, 0x00,
     0x64, 0x61, 0x74, 0x61, 0x02, 0x00, 0x00, 0x00, 0x12, 0x34] =
    Some (Inr
      \<lparr>fstream = \<lparr>content = [0x52, 0x49, 0x46, 0x46, 0x26, 0x00, 0x00, 0x00, 0x57, 0x41, 0x56, 0x45,
                              0x66, 0x6D, 0x74, 0x20, 0x10, 0x00, 0x00, 0x00, 0x01, 0x00, 0x01, 0x00,
                              0x40, 0x1F, 0x00, 0x00, 0x80, 0x3E, 0x00, 0x00, 0x02, 0x00, 0x04, 0x00,
                              0x64, 0x61, 0x74, 0x61, 0x02, 0x00, 0x00, 0x00, 0x12, 0x34],
                  gpos = 44\<rparr>,
        sampleFormat = Int16, frameRate = 8000, frameCount = 1, channelCount = 1,
        remainingSamples = 1\<rparr>)"
  by (simp add: WaveFileReader_def read_header_def read_le_def read_bytes_def and_then_def fourcc_def
      scan_chunks.simps scan_step_def fmt_chunk_def data_chunk_def determineSampleFormat_def
      seekg_cur_def int32_def roundToEven_def Let_def)

text \<open>
  C2. A Float format chunk with two channels and a frame size of 4 is accepted, although
  4 bytes per sample times 2 channels is 8: the frame size is compared in the PCM branch
  only. A PCM format chunk with 8 bits per sample, two channels and a frame size of 3 is
  accepted as well, although 1 byte per sample times 2 channels is 2: the comparison is
  with the truncated quotient \<open>3 / 2\<close>.
\<close>

theorem determineSampleFormat_frame_size_mismatch:
  "determineSampleFormat 3 32 4 2 = Inr (Float32, 4) \<and>
   WaveFileReader
    [0x52, 0x49, 0x46, 0x46, 0x2C, 0x00, 0x00, 0x00, 0x57, 0x41, 0x56, 0x45,
     0x66, 0x6D, 0x74, 0x20, 0x10, 0x00, 0x00, 0x00, 0x03, 0x00, 0x02, 0x00,
     0x40, 0x1F, 0x00, 0x00, 0x00, 0x7D, 0x00, 0x00, 0x04, 0x00, 0x20, 0x00,
     0x64, 0x61, 0x74, 0x61, 0x08, 0x00, 0x00, 0x00, 0x00, 0x00, 0x00, 0x3F,
     0x00, 0x00, 0x00, 0xBF] =
    Some (Inr
      \<lparr>fstream = \<lparr>content = [0x52, 0x49, 0x46, 0x46, 0x2C, 0x00, 0x00, 0x00, 0x57, 0x41, 0x56, 0x45,
                              0x66, 0x6D, 0x74, 0x20, 0x10, 0x00, 0x00, 0x00, 0x03, 0x00, 0x02, 0x00,
                              0x40, 0x1F, 0x00, 0x00, 0x00, 0x7D, 0x00, 0x00, 0x04, 0x00, 0x20, 0x00,
                              0x64, 0x61, 0x74, 0x61, 0x08, 0x00, 0x00, 0x00, 0x00, 0x00, 0x00, 0x3F,
                              0x00, 0x00, 0x00, 0xBF],
                  gpos = 44\<rparr>,
        sampleFormat = Float32, frameRate = 8000, frameCount = 1, channelCount = 2,
        remainingSamples = 2\<rparr>) \<and>
   determineSampleFormat 1 8 3 2 = Inr (UInt8, 1) \<and>
   WaveFileReader
    [0x52, 0x49, 0x46, 0x46, 0x2A, 0x00, 0x00, 0x00, 0x57, 0x41, 0x56, 0x45,
     0x66, 0x6D, 0x74, 0x20, 0x10, 0x00, 0x00, 0x00, 0x01, 0x00, 0x02, 0x00,
     0x40, 0x1F, 0x00, 0x00, 0xC0, 0x5D, 0x00, 0x00, 0x03, 0x00, 0x08, 0x00,
     0x64, 0x61, 0x74, 0x61, 0x06, 0x00, 0x00, 0x00, 0x01, 0x02, 0x03, 0x04,
     0x05, 0x06] =
    Some (Inr
      \<lparr>fstream = \<lparr>content = [0x52, 0x49, 0x46, 0x46, 0x2A, 0x00, 0x00, 0x00, 0x57, 0x41, 0x56, 0x45,
                              0x66, 0x6D, 0x74, 0x20, 0x10, 0x00, 0x00, 0x00, 0x01, 0x00, 0x02, 0x00,
                              0x40, 0x1F, 0x00, 0x00, 0xC0, 0x5D, 0x00, 0x00, 0x03, 0x00, 0x08, 0x00,
                              0x64, 0x61, 0x74, 0x61, 0x06, 0x00, 0x00, 0x00, 0x01, 0x02, 0x03, 0x04,
                              0x05, 0x06],
                  gpos = 44\<rparr>,
        sampleFormat = UInt8, frameRate = 8000, frameCount = 3, channelCount = 2,
        remainingSamples = 6\<rparr>)"
  by (simp add: WaveFileReader_def read_header_def read_le_def read_bytes_def and_then_def fourcc_def
      scan_chunks.simps scan_step_def fmt_chunk_def data_chunk_def determineSampleFormat_def
      seekg_cur_def int32_def roundToEven_def Let_def)

text \<open>
  C3. In a container whose data chunk comes before its format chunk, the constructor
  reaches the data chunk with \<open>bytesPerSample\<close> still 0 and divides the chunk size by it.
\<close>

theorem WaveFileReader_data_before_fmt:
  "WaveFileReader
    [0x52, 0x49, 0x46, 0x46, 0x28, 0x00, 0x00, 0x00, 0x57, 0x41, 0x56, 0x45,
     0x64, 0x61, 0x74, 0x61, 0x04, 0x00, 0x00, 0x00, 0x01, 0x02, 0x03, 0x04,
     0x66, 0x6D, 0x74, 0x20, 0x10, 0x00, 0x00, 0x00, 0x01, 0x00, 0x01, 0x00,
     0x40, 0x1F, 0x00, 0x00, 0x40, 0x1F, 0x00, 0x00, 0x01, 0x00, 0x08, 0x00] =
    Some (Inl DivisionByZero)"
  by (simp add: WaveFileReader_def read_header_def read_le_def read_bytes_def and_then_def fourcc_def
      scan_chunks.simps scan_step_def fmt_chunk_def data_chunk_def determineSampleFormat_def
      seekg_cur_def int32_def roundToEven_def Let_def)

end
